theory Spec2Isabelle
  imports Complex_Main
begin

section \<open>MessBuddy backend: data model\<close>

text \<open>
  The backend stores its documents in MongoDB collections through the Beanie ODM. A
  collection is modelled as the list of its documents in insertion order; \<open>get\<close> and
  \<open>find_one\<close> return the first document that matches. An HTTP handler is a function
  from the database and the request to a response and the database afterwards, so that
  what a failing request leaves behind can be stated.

  Values the handlers read from their environment (the clock, identifiers generated on
  insertion, whether a write raises) are arguments of the model. Library functions that
  are not part of the repository (SHA-256, bcrypt, JWT encoding, the e-mail validator)
  are taken as parameters.
\<close>

subsection \<open>Object identifiers\<close>

text \<open>
  A BSON ObjectId is twelve bytes. It is represented by the text \<open>str\<close> gives for it:
  twenty-four lowercase hexadecimal digits. The constructor \<open>PydanticObjectId(s)\<close>
  accepts a string of twenty-four hexadecimal digits in either case and raises
  \<open>InvalidId\<close> on anything else (the result \<open>None\<close> here).
\<close>

type_synonym oid = string

definition is_hex_digit :: "char \<Rightarrow> bool" where
  "is_hex_digit c = (c \<in> set ''0123456789abcdefABCDEF'')"

definition lower_hex :: "char \<Rightarrow> char" where
  "lower_hex c =
     (if c = CHR ''A'' then CHR ''a'' else if c = CHR ''B'' then CHR ''b''
      else if c = CHR ''C'' then CHR ''c'' else if c = CHR ''D'' then CHR ''d''
      else if c = CHR ''E'' then CHR ''e'' else if c = CHR ''F'' then CHR ''f''
      else c)"

definition PydanticObjectId :: "string \<Rightarrow> oid option" where
  "PydanticObjectId s =
     (if length s = 24 \<and> list_all is_hex_digit s then Some (map lower_hex s) else None)"

definition str_oid :: "oid \<Rightarrow> string" where
  "str_oid i = i"

subsection \<open>Time\<close>

text \<open>
  A naive UTC \<open>datetime\<close> is the number of microseconds since the epoch;
  \<open>timedelta(days=n)\<close> is \<open>n\<close> times 86400 seconds.
\<close>

type_synonym datetime = int

definition timedelta_days :: "int \<Rightarrow> int" where
  "timedelta_days n = n * 86400000000"

definition replace_midnight :: "datetime \<Rightarrow> datetime" where
  "replace_midnight t = t - t mod 86400000000"

subsection \<open>Decimal text\<close>

definition is_digit :: "char \<Rightarrow> bool" where
  "is_digit c = (c \<in> set ''0123456789'')"

definition digit_val :: "char \<Rightarrow> nat" where
  "digit_val c = length (takeWhile (\<lambda>d. d \<noteq> c) ''0123456789'')"

definition digit_char :: "nat \<Rightarrow> char" where
  "digit_char n = ''0123456789'' ! (n mod 10)"

function str_nat :: "nat \<Rightarrow> string" where
  "str_nat n = (if n < 10 then [digit_char n] else str_nat (n div 10) @ [digit_char n])"
  by pat_completeness auto
termination
  by (relation "measure (\<lambda>n. n)") auto

definition str_int :: "int \<Rightarrow> string" where
  "str_int i = (if i < 0 then CHR ''-'' # str_nat (nat (- i)) else str_nat (nat i))"

definition nat_of_digits :: "string \<Rightarrow> nat" where
  "nat_of_digits s = foldl (\<lambda>a c. 10 * a + digit_val c) 0 s"

section \<open>Mess documents and their ratings\<close>

text \<open>
  \<open>Ratings\<close> and \<open>RatedBy\<close> are declared \<open>List[Any]\<close>. The source says what legacy
  data they hold: ratings are ints, floats or strings, raters are ObjectIds, strings or
  ints. A Python \<open>bool\<close> is an \<open>int\<close> (\<open>True\<close> is 1) and is represented as one.
  Floats are represented by the real number they denote: rounding, overflow and NaN are
  outside the model. Strings are ASCII.
\<close>

datatype rating_value = PyInt int | PyFloat real | PyStr string | PyOther

datatype rater = RaterObjectId oid | RaterStr string | RaterInt int

fun str_rater :: "rater \<Rightarrow> string" where
  "str_rater (RaterObjectId i) = str_oid i"
| "str_rater (RaterStr s) = s"
| "str_rater (RaterInt n) = str_int n"

record Mess =
  m_id :: oid
  Mess_ID :: int
  Mess_Name :: string
  Mobile_No :: "string option"
  Capacity :: "int option"
  Address :: "string option"
  Owner_ID :: oid
  Description :: "string option"
  Ratings :: "rating_value list"
  RatedBy :: "rater list"
  m_UserID :: int
  Image :: "string option"
  m_created_at :: "datetime option"
  m_updated_at :: "datetime option"

text \<open>\<open>s.replace('.', '', 1)\<close>: the first full stop is removed.\<close>

fun replace_first_dot :: "string \<Rightarrow> string" where
  "replace_first_dot [] = []"
| "replace_first_dot (c # cs) = (if c = CHR ''.'' then cs else c # replace_first_dot cs)"

text \<open>\<open>str.isdigit\<close>: at least one character, and every character a digit.\<close>

definition isdigit :: "string \<Rightarrow> bool" where
  "isdigit s = (s \<noteq> [] \<and> list_all is_digit s)"

text \<open>
  \<open>float(s)\<close> on a string that passed the test above: the digits before the full stop
  and the digits after it, read as a decimal fraction.
\<close>

definition float_of_str :: "string \<Rightarrow> real" where
  "float_of_str s =
     (let whole = takeWhile (\<lambda>c. c \<noteq> CHR ''.'') s;
          frac = drop (Suc (length whole)) s
      in real (nat_of_digits (whole @ frac)) / 10 ^ length frac)"

text \<open>The loop of \<open>calculate_average_rating\<close> that collects \<open>valid_ratings\<close>.\<close>

fun collect_valid_ratings :: "rating_value list \<Rightarrow> real list \<Rightarrow> real list" where
  "collect_valid_ratings [] valid_ratings = valid_ratings"
| "collect_valid_ratings (PyInt i # rs) valid_ratings =
     collect_valid_ratings rs (valid_ratings @ [of_int i])"
| "collect_valid_ratings (PyFloat x # rs) valid_ratings =
     collect_valid_ratings rs (valid_ratings @ [x])"
| "collect_valid_ratings (PyStr s # rs) valid_ratings =
     (if isdigit (replace_first_dot s)
      then collect_valid_ratings rs (valid_ratings @ [float_of_str s])
      else collect_valid_ratings rs valid_ratings)"
| "collect_valid_ratings (PyOther # rs) valid_ratings =
     collect_valid_ratings rs valid_ratings"

definition calculate_average_rating :: "Mess \<Rightarrow> real" where
  "calculate_average_rating m =
     (if Ratings m = [] then 0
      else let valid_ratings = collect_valid_ratings (Ratings m) []
           in if valid_ratings = [] then 0
              else sum_list valid_ratings / real (length valid_ratings))"

text \<open>
  The specification's reading of the same function. An entry is numeric-convertible when
  it is an int, a float, or a string made of digits (at least one) with at most one
  full stop; the average is taken over those entries only.
\<close>

definition digits_with_at_most_one_point :: "string \<Rightarrow> bool" where
  "digits_with_at_most_one_point s =
     (list_all (\<lambda>c. is_digit c \<or> c = CHR ''.'') s
      \<and> length (filter (\<lambda>c. c = CHR ''.'') s) \<le> 1
      \<and> list_ex is_digit s)"

fun numeric_convertible :: "rating_value \<Rightarrow> bool" where
  "numeric_convertible (PyInt i) = True"
| "numeric_convertible (PyFloat x) = True"
| "numeric_convertible (PyStr s) = digits_with_at_most_one_point s"
| "numeric_convertible PyOther = False"

fun numeric_value :: "rating_value \<Rightarrow> real" where
  "numeric_value (PyInt i) = of_int i"
| "numeric_value (PyFloat x) = x"
| "numeric_value (PyStr s) = float_of_str s"
| "numeric_value PyOther = 0"

definition spec_average_rating :: "rating_value list \<Rightarrow> real" where
  "spec_average_rating rs =
     (let valid = filter numeric_convertible rs
      in if valid = [] then 0
         else sum_list (map numeric_value valid) / real (length valid))"


section \<open>Users, plans, subscriptions, meal passes and check-ins\<close>

datatype LoginRole = USER | MESS_OWNER

fun LoginRole_value :: "LoginRole \<Rightarrow> string" where
  "LoginRole_value USER = ''User''"
| "LoginRole_value MESS_OWNER = ''Mess Owner''"

record User =
  u_id :: oid
  u_username :: string
  u_email :: string
  u_password :: string
  Login_Role :: LoginRole
  UserID :: int
  u_created_at :: "datetime option"
  u_updated_at :: "datetime option"

definition is_mess_owner :: "User \<Rightarrow> bool" where
  "is_mess_owner u = (Login_Role u = MESS_OWNER)"

definition is_regular_user :: "User \<Rightarrow> bool" where
  "is_regular_user u = (Login_Role u = USER)"

datatype duration = Daily | Weekly | Monthly

datatype plan_meal_type = Veg | Non_Veg | Jain

fun str_plan_meal_type :: "plan_meal_type \<Rightarrow> string" where
  "str_plan_meal_type Veg = ''Veg''"
| "str_plan_meal_type Non_Veg = ''Non-Veg''"
| "str_plan_meal_type Jain = ''Jain''"

record SubscriptionPlan =
  sp_id :: oid
  sp_messId :: oid
  planName :: string
  sp_duration :: duration
  sp_mealType :: plan_meal_type
  price :: real
  description :: string
  sp_isActive :: bool
  sp_created_at :: "datetime option"
  sp_updated_at :: "datetime option"

datatype subscription_status = Active | Expired | Cancelled | Pending | Plan_Removed

datatype payment_status = Payment_Pending | Payment_Completed | Payment_Failed

record UserSubscription =
  us_id :: oid
  us_userId :: oid
  us_planId :: oid
  startDate :: datetime
  endDate :: datetime
  us_status :: subscription_status
  paymentId :: "string option"
  paymentStatus :: payment_status
  cancellationReason :: "string option"
  us_created_at :: "datetime option"
  us_updated_at :: "datetime option"

record MealPass =
  mp_id :: oid
  mp_userId :: oid
  mp_subscriptionId :: oid
  mp_messId :: oid
  qrCode :: string
  mp_isActive :: bool
  isBlocked :: bool
  blockReason :: "string option"
  validFrom :: "datetime option"
  validTill :: "datetime option"
  mp_created_at :: "datetime option"
  mp_updated_at :: "datetime option"

datatype checkin_meal_type = Breakfast | Lunch | Dinner

datatype checkin_status = Success | Failed

record CheckIn =
  ci_id :: oid
  ci_userId :: oid
  ci_messId :: oid
  ci_mealPassId :: oid
  ci_mealType :: checkin_meal_type
  ci_status :: checkin_status
  failureReason :: "string option"
  ci_created_at :: "datetime option"
  ci_updated_at :: "datetime option"

text \<open>
  Documents keep the field names of the source. A name that several documents share
  (\<open>id\<close>, \<open>userId\<close>, \<open>messId\<close>, \<open>mealType\<close>, \<open>status\<close>, \<open>isActive\<close>,
  \<open>created_at\<close>, \<open>updated_at\<close>) carries the document's prefix: \<open>u_\<close> for a user,
  \<open>sp_\<close> for a subscription plan, \<open>us_\<close> for a user subscription, \<open>mp_\<close> for a
  meal pass, \<open>ci_\<close> for a check-in and \<open>m_\<close> for a mess.

  The database: one list per collection, named as in the documents' \<open>Settings\<close>.
\<close>

record db =
  users :: "User list"
  subscriptionplans :: "SubscriptionPlan list"
  usersubscriptions :: "UserSubscription list"
  mealpasses :: "MealPass list"
  checkins :: "CheckIn list"
  messes :: "Mess list"

definition User_get :: "db \<Rightarrow> oid \<Rightarrow> User option" where
  "User_get st i = find (\<lambda>u. u_id u = i) (users st)"

definition SubscriptionPlan_get :: "db \<Rightarrow> oid \<Rightarrow> SubscriptionPlan option" where
  "SubscriptionPlan_get st i = find (\<lambda>p. sp_id p = i) (subscriptionplans st)"

definition UserSubscription_get :: "db \<Rightarrow> oid \<Rightarrow> UserSubscription option" where
  "UserSubscription_get st i = find (\<lambda>s. us_id s = i) (usersubscriptions st)"

definition MealPass_get :: "db \<Rightarrow> oid \<Rightarrow> MealPass option" where
  "MealPass_get st i = find (\<lambda>p. mp_id p = i) (mealpasses st)"

definition Mess_get :: "db \<Rightarrow> oid \<Rightarrow> Mess option" where
  "Mess_get st i = find (\<lambda>m. m_id m = i) (messes st)"

text \<open>
  What a handler answers: a raised \<open>HTTPException\<close>, a returned \<open>JSONResponse\<close> with
  a status code and a message, or the returned value. Every handler turns an exception
  that is not an \<open>HTTPException\<close> into status 500.
\<close>

datatype 'a response = HTTPException nat string | JSONResponse nat string | Return 'a

definition internal_server_error :: "'a response" where
  "internal_server_error = HTTPException 500 ''Internal server error''"

subsection \<open>The QR payload\<close>

text \<open>
  \<open>json.dumps(d, sort_keys=True)\<close> for a flat dictionary whose values are strings and
  ints: the items in ascending key order, written \<open>"key": value\<close> and separated by a
  comma and a space. The strings written here are hexadecimal identifiers and meal type
  names, which \<open>json.dumps\<close> copies unescaped between double quotes.
\<close>

datatype json_value = JString string | JNumber int

fun str_less :: "string \<Rightarrow> string \<Rightarrow> bool" where
  "str_less [] [] = False"
| "str_less [] (d # ds) = True"
| "str_less (c # cs) [] = False"
| "str_less (c # cs) (d # ds) =
     ((of_char c :: nat) < of_char d \<or> (c = d \<and> str_less cs ds))"

fun insert_item :: "string \<times> json_value \<Rightarrow> (string \<times> json_value) list \<Rightarrow> (string \<times> json_value) list" where
  "insert_item x [] = [x]"
| "insert_item x (y # ys) = (if str_less (fst x) (fst y) then x # y # ys else y # insert_item x ys)"

definition sort_keys :: "(string \<times> json_value) list \<Rightarrow> (string \<times> json_value) list" where
  "sort_keys items = foldr insert_item items []"

fun dumps_value :: "json_value \<Rightarrow> string" where
  "dumps_value (JString s) = CHR 0x22 # s @ [CHR 0x22]"
| "dumps_value (JNumber n) = str_int n"

definition dumps_item :: "string \<times> json_value \<Rightarrow> string" where
  "dumps_item kv = CHR 0x22 # fst kv @ [CHR 0x22] @ '': '' @ dumps_value (snd kv)"

fun join_comma :: "string list \<Rightarrow> string" where
  "join_comma [] = []"
| "join_comma [x] = x"
| "join_comma (x # y # ys) = x @ '', '' @ join_comma (y # ys)"

definition json_dumps_sort_keys :: "(string \<times> json_value) list \<Rightarrow> string" where
  "json_dumps_sort_keys items = ''{'' @ join_comma (map dumps_item (sort_keys items)) @ ''}''"


section \<open>Subscription handlers\<close>

text \<open>
  The chain \<open>if plan.duration == 'Daily': ... elif 'Weekly': ... elif 'Monthly': ...\<close>
  that both \<open>subscribe_to_plan\<close> and \<open>activate_subscription\<close> run on a start date;
  the end date starts out equal to the start date.
\<close>

definition end_date_for :: "duration \<Rightarrow> datetime \<Rightarrow> datetime" where
  "end_date_for d start_date =
     (if d = Daily then start_date + timedelta_days 1
      else if d = Weekly then start_date + timedelta_days 7
      else if d = Monthly then start_date + timedelta_days 30
      else start_date)"

record SubscribeToPlanRequest =
  req_planId :: string
  req_userId :: string

text \<open>
  What one run of \<open>subscribe_to_plan\<close> reads from its environment, in the order it
  reads it: the clock for \<open>start_date\<close>; the clock for the new subscription's
  \<open>created_at\<close> and \<open>updated_at\<close> and the identifier its insertion assigns; the value
  of \<open>int(datetime.utcnow().timestamp())\<close> for the QR payload; the same three for the
  meal pass; and whether saving the meal pass raises.
\<close>

record subscribe_env =
  start_now :: datetime
  sub_created :: datetime
  sub_updated :: datetime
  sub_new_id :: oid
  qr_timestamp :: int
  pass_created :: datetime
  pass_updated :: datetime
  pass_new_id :: oid
  pass_save_raises :: bool

text \<open>
  The first argument is \<open>\<lambda>s. hashlib.sha256(s.encode()).hexdigest()\<close>; its results
  are 64 characters long, within the bounds 1 and 500 of the field \<open>qrCode\<close>. The
  handler returns \<open>subscription.to_dict()\<close>, modelled by the document itself.
\<close>

definition subscribe_to_plan ::
  "(string \<Rightarrow> string) \<Rightarrow> subscribe_env \<Rightarrow> db \<Rightarrow> SubscribeToPlanRequest
     \<Rightarrow> UserSubscription response \<times> db" where
  "subscribe_to_plan sha256_hexdigest env st payload =
     (case PydanticObjectId (req_userId payload) of
        None \<Rightarrow> (internal_server_error, st)
      | Some uid \<Rightarrow>
        (case User_get st uid of
           None \<Rightarrow> (HTTPException 403 ''Only users can subscribe to plans'', st)
         | Some user \<Rightarrow>
           if \<not> is_regular_user user
           then (HTTPException 403 ''Only users can subscribe to plans'', st)
           else
           (case PydanticObjectId (req_planId payload) of
              None \<Rightarrow> (internal_server_error, st)
            | Some pid \<Rightarrow>
              (case SubscriptionPlan_get st pid of
                 None \<Rightarrow> (HTTPException 404 ''Plan not found or inactive'', st)
               | Some plan \<Rightarrow>
                 if \<not> sp_isActive plan
                 then (HTTPException 404 ''Plan not found or inactive'', st)
                 else
                 (case find (\<lambda>s. us_userId s = u_id user \<and> us_planId s = sp_id plan)
                         (usersubscriptions st) of
                    Some existing \<Rightarrow>
                      (HTTPException 400
                         ''You have already subscribed to this plan before. Each plan can only be subscribed once.'',
                       st)
                  | None \<Rightarrow>
                    let start_date = start_now env;
                        end_date = end_date_for (sp_duration plan) start_date;
                        subscription =
                          \<lparr>us_id = sub_new_id env, us_userId = u_id user,
                           us_planId = sp_id plan, startDate = start_date,
                           endDate = end_date, us_status = Pending, paymentId = None,
                           paymentStatus = Payment_Pending, cancellationReason = None,
                           us_created_at = Some (sub_created env),
                           us_updated_at = Some (sub_updated env)\<rparr>;
                        st1 = st\<lparr>usersubscriptions := usersubscriptions st @ [subscription]\<rparr>;
                        qr_data =
                          [(''userId'', JString (str_oid (u_id user))),
                           (''subscriptionId'', JString (str_oid (us_id subscription))),
                           (''planId'', JString (str_oid (sp_id plan))),
                           (''messId'', JString (str_oid (sp_messId plan))),
                           (''mealType'', JString (str_plan_meal_type (sp_mealType plan))),
                           (''timestamp'', JNumber (qr_timestamp env))];
                        qr_string = sha256_hexdigest (json_dumps_sort_keys qr_data);
                        meal_pass =
                          \<lparr>mp_id = pass_new_id env, mp_userId = u_id user,
                           mp_subscriptionId = us_id subscription,
                           mp_messId = sp_messId plan, qrCode = qr_string,
                           mp_isActive = True, isBlocked = False, blockReason = None,
                           validFrom = Some start_date, validTill = Some end_date,
                           mp_created_at = Some (pass_created env),
                           mp_updated_at = Some (pass_updated env)\<rparr>
                    in if pass_save_raises env
                       then (Return subscription, st1)
                       else (Return subscription,
                             st1\<lparr>mealpasses := mealpasses st1 @ [meal_pass]\<rparr>))))))"

record UpdatePlanRequest =
  upd_planName :: "string option"
  upd_duration :: "duration option"
  upd_mealType :: "plan_meal_type option"
  upd_price :: "real option"
  upd_description :: "string option"
  upd_isActive :: "bool option"
  upd_userId :: string

text \<open>
  \<open>payload.dict(exclude={'userId'}, exclude_none=True)\<close> followed by \<open>setattr\<close> for
  each item left: a field of the plan is assigned when the payload holds a value for it.
\<close>

definition apply_update_data :: "UpdatePlanRequest \<Rightarrow> SubscriptionPlan \<Rightarrow> SubscriptionPlan" where
  "apply_update_data payload plan =
     (let p1 = (case upd_planName payload of None \<Rightarrow> plan | Some v \<Rightarrow> plan\<lparr>planName := v\<rparr>);
          p2 = (case upd_duration payload of None \<Rightarrow> p1 | Some v \<Rightarrow> p1\<lparr>sp_duration := v\<rparr>);
          p3 = (case upd_mealType payload of None \<Rightarrow> p2 | Some v \<Rightarrow> p2\<lparr>sp_mealType := v\<rparr>);
          p4 = (case upd_price payload of None \<Rightarrow> p3 | Some v \<Rightarrow> p3\<lparr>price := v\<rparr>);
          p5 = (case upd_description payload of None \<Rightarrow> p4 | Some v \<Rightarrow> p4\<lparr>description := v\<rparr>)
      in (case upd_isActive payload of None \<Rightarrow> p5 | Some v \<Rightarrow> p5\<lparr>sp_isActive := v\<rparr>))"

text \<open>\<open>save\<close> on a document read from the collection replaces the stored one.\<close>

definition SubscriptionPlan_save :: "db \<Rightarrow> SubscriptionPlan \<Rightarrow> db" where
  "SubscriptionPlan_save st plan =
     st\<lparr>subscriptionplans :=
          map (\<lambda>p. if sp_id p = sp_id plan then plan else p) (subscriptionplans st)\<rparr>"

definition UserSubscription_save :: "db \<Rightarrow> UserSubscription \<Rightarrow> db" where
  "UserSubscription_save st sub =
     st\<lparr>usersubscriptions :=
          map (\<lambda>s. if us_id s = us_id sub then sub else s) (usersubscriptions st)\<rparr>"

definition update_plan ::
  "db \<Rightarrow> string \<Rightarrow> UpdatePlanRequest \<Rightarrow> datetime \<Rightarrow> SubscriptionPlan response \<times> db" where
  "update_plan st plan_id payload now =
     (case PydanticObjectId plan_id of
        None \<Rightarrow> (internal_server_error, st)
      | Some pid \<Rightarrow>
        (case SubscriptionPlan_get st pid of
           None \<Rightarrow> (HTTPException 404 ''Plan not found'', st)
         | Some plan \<Rightarrow>
           (case PydanticObjectId (upd_userId payload) of
              None \<Rightarrow> (internal_server_error, st)
            | Some uid \<Rightarrow>
              (case User_get st uid of
                 None \<Rightarrow> (HTTPException 403 ''You can only update your own plans'', st)
               | Some user \<Rightarrow>
                 if \<not> is_mess_owner user \<or> str_oid (sp_messId plan) \<noteq> upd_userId payload
                 then (HTTPException 403 ''You can only update your own plans'', st)
                 else
                   let plan' = (apply_update_data payload plan)\<lparr>sp_updated_at := Some now\<rparr>
                   in (Return plan', SubscriptionPlan_save st plan')))))"

record UpdateSubscriptionRequest =
  act_status :: "subscription_status option"
  act_messId :: "string option"

text \<open>
  \<open>now_status\<close> is the clock read in the status branch, \<open>now_updated\<close> the clock read
  for \<open>updated_at\<close>.
\<close>

definition activate_subscription ::
  "db \<Rightarrow> string \<Rightarrow> UpdateSubscriptionRequest \<Rightarrow> datetime \<Rightarrow> datetime
     \<Rightarrow> UserSubscription response \<times> db" where
  "activate_subscription st subscription_id payload now_status now_updated =
     (case PydanticObjectId subscription_id of
        None \<Rightarrow> (internal_server_error, st)
      | Some sid \<Rightarrow>
        (case UserSubscription_get st sid of
           None \<Rightarrow> (HTTPException 404 ''Subscription not found'', st)
         | Some subscription \<Rightarrow>
           (case SubscriptionPlan_get st (us_planId subscription) of
              None \<Rightarrow> (HTTPException 404 ''Plan not found'', st)
            | Some plan \<Rightarrow>
              if (case act_messId payload of
                    None \<Rightarrow> False
                  | Some m \<Rightarrow> m \<noteq> [] \<and> str_oid (sp_messId plan) \<noteq> m)
              then (HTTPException 403 ''Not authorized to update this subscription'', st)
              else
                let s1 = (case act_status payload of
                            None \<Rightarrow> subscription
                          | Some status \<Rightarrow>
                              let s = subscription\<lparr>us_status := status\<rparr>
                              in if status = Cancelled \<or> status = Expired
                                 then s\<lparr>endDate := now_status\<rparr>
                                 else if status = Active
                                 then s\<lparr>startDate := now_status,
                                        endDate := end_date_for (sp_duration plan) now_status\<rparr>
                                 else s);
                    s2 = s1\<lparr>us_updated_at := Some now_updated\<rparr>
                in (Return s2, UserSubscription_save st s2))))"


section \<open>Meal pass validation\<close>

text \<open>
  The answer for a valid pass: \<open>meal_pass.to_dict()\<close> with \<open>userId\<close> replaced by the
  user's identifier, name and e-mail address, and \<open>subscriptionId\<close> replaced by the
  subscription and its plan when the plan is found.
\<close>

record populated_plan =
  pp_id :: oid
  pp_planName :: string
  pp_mealType :: plan_meal_type
  pp_duration :: duration

record populated_subscription =
  ps_id :: oid
  ps_status :: subscription_status
  ps_planId :: populated_plan

record populated_user =
  pu_id :: oid
  pu_username :: string
  pu_email :: string

record validate_response =
  valid :: bool
  vr_mealPass :: MealPass
  vr_userId :: populated_user
  vr_subscriptionId :: "populated_subscription option"

text \<open>
  The text of the \<open>TypeError\<close> that comparing a \<open>datetime\<close> with \<open>None\<close> raises; the
  handler answers it with status 500 and this text as the detail.
\<close>

definition not_supported :: "string \<Rightarrow> string" where
  "not_supported opr =
     [CHR 0x27] @ opr @ [CHR 0x27] @ '' not supported between instances of ''
     @ [CHR 0x27] @ ''datetime.datetime'' @ [CHR 0x27] @ '' and ''
     @ [CHR 0x27] @ ''NoneType'' @ [CHR 0x27]"

definition str_optional :: "string option \<Rightarrow> string" where
  "str_optional x = (case x of None \<Rightarrow> ''None'' | Some s \<Rightarrow> s)"

definition validate_meal_pass :: "db \<Rightarrow> string \<Rightarrow> datetime \<Rightarrow> validate_response response" where
  "validate_meal_pass st payload_qrCode now =
     (case find (\<lambda>p. qrCode p = payload_qrCode) (mealpasses st) of
        None \<Rightarrow> HTTPException 404 ''Invalid QR code''
      | Some meal_pass \<Rightarrow>
        if isBlocked meal_pass
        then HTTPException 403 (''User is blocked: '' @ str_optional (blockReason meal_pass))
        else if \<not> mp_isActive meal_pass
        then HTTPException 403 ''Meal pass is not active''
        else
        (case validFrom meal_pass of
           None \<Rightarrow> HTTPException 500 (not_supported ''<'')
         | Some valid_from \<Rightarrow>
           if now < valid_from then HTTPException 403 ''Meal pass has expired''
           else
           (case validTill meal_pass of
              None \<Rightarrow> HTTPException 500 (not_supported ''>'')
            | Some valid_till \<Rightarrow>
              if now > valid_till then HTTPException 403 ''Meal pass has expired''
              else
              (case UserSubscription_get st (mp_subscriptionId meal_pass) of
                 None \<Rightarrow> HTTPException 404 ''Subscription not found''
               | Some subscription \<Rightarrow>
                 if us_status subscription \<noteq> Active
                 then HTTPException 403 ''Subscription is not active''
                 else
                 (case User_get st (mp_userId meal_pass) of
                    None \<Rightarrow> HTTPException 404 ''User not found''
                  | Some user \<Rightarrow>
                    Return
                      \<lparr>valid = True, vr_mealPass = meal_pass,
                       vr_userId =
                         \<lparr>pu_id = u_id user, pu_username = u_username user,
                          pu_email = u_email user\<rparr>,
                       vr_subscriptionId =
                         (case SubscriptionPlan_get st (us_planId subscription) of
                            None \<Rightarrow> None
                          | Some plan \<Rightarrow>
                            Some \<lparr>ps_id = us_id subscription,
                                  ps_status = us_status subscription,
                                  ps_planId =
                                    \<lparr>pp_id = sp_id plan, pp_planName = planName plan,
                                     pp_mealType = sp_mealType plan,
                                     pp_duration = sp_duration plan\<rparr>\<rparr>)\<rparr>)))))"

section \<open>Check-ins\<close>

record CreateCheckInRequest =
  cr_mealPassId :: string
  cr_mealType :: checkin_meal_type

text \<open>
  What one run of \<open>create_checkin\<close> reads from its environment: the clock for
  \<open>today_start\<close>, then the clock for the new check-in's \<open>created_at\<close> and
  \<open>updated_at\<close>, and the identifier its insertion assigns.
\<close>

record checkin_env =
  today_now :: datetime
  checkin_created :: datetime
  checkin_updated :: datetime
  checkin_new_id :: oid

fun str_status :: "subscription_status \<Rightarrow> string" where
  "str_status Active = ''Active''"
| "str_status Expired = ''Expired''"
| "str_status Cancelled = ''Cancelled''"
| "str_status Pending = ''Pending''"
| "str_status Plan_Removed = ''Plan Removed''"

text \<open>
  The query for a check-in of the same pass and meal made today. A stored \<open>created_at\<close>
  that is null matches neither bound.
\<close>

definition checked_in_today ::
  "oid \<Rightarrow> checkin_meal_type \<Rightarrow> datetime \<Rightarrow> datetime \<Rightarrow> CheckIn \<Rightarrow> bool" where
  "checked_in_today pass_id meal_type today_start today_end c =
     (ci_mealPassId c = pass_id \<and> ci_mealType c = meal_type
      \<and> (case ci_created_at c of None \<Rightarrow> False | Some t \<Rightarrow> today_start \<le> t \<and> t < today_end))"

definition create_checkin ::
  "checkin_env \<Rightarrow> db \<Rightarrow> string \<Rightarrow> CreateCheckInRequest \<Rightarrow> CheckIn response \<times> db" where
  "create_checkin env st mess_id payload =
     (case PydanticObjectId (cr_mealPassId payload) of
        None \<Rightarrow> (internal_server_error, st)
      | Some pass_id \<Rightarrow>
        (case MealPass_get st pass_id of
           None \<Rightarrow> (JSONResponse 404 ''Meal pass not found'', st)
         | Some meal_pass \<Rightarrow>
           if \<not> mp_isActive meal_pass \<or> isBlocked meal_pass
           then (JSONResponse 403 ''Meal pass is inactive or blocked'', st)
           else
           (case UserSubscription_get st (mp_subscriptionId meal_pass) of
              None \<Rightarrow> (JSONResponse 404 ''Subscription not found'', st)
            | Some subscription \<Rightarrow>
              if us_status subscription \<noteq> Active
              then (JSONResponse 403
                      (''Subscription is not active. Current status: ''
                       @ str_status (us_status subscription)), st)
              else
                let today_start = replace_midnight (today_now env);
                    today_end = today_start + timedelta_days 1
                in (case find (checked_in_today (mp_id meal_pass) (cr_mealType payload)
                                 today_start today_end) (checkins st) of
                      Some existing_checkin \<Rightarrow>
                        (JSONResponse 400 ''Already checked in for this meal today'', st)
                    | None \<Rightarrow>
                        let checkin =
                              \<lparr>ci_id = checkin_new_id env, ci_userId = mp_userId meal_pass,
                               ci_messId = mp_messId meal_pass,
                               ci_mealPassId = mp_id meal_pass,
                               ci_mealType = cr_mealType payload, ci_status = Success,
                               failureReason = None,
                               ci_created_at = Some (checkin_created env),
                               ci_updated_at = Some (checkin_updated env)\<rparr>
                        in (Return checkin, st\<lparr>checkins := checkins st @ [checkin]\<rparr>)))))"

text \<open>
  The handler awaits between the duplicate query and the insertion, and the collection
  \<open>checkins\<close> has no unique index, so the insertion of another request can land in
  between. \<open>create_checkin_interleaved env st_read st_insert\<close> is the run whose reads
  saw \<open>st_read\<close> and whose insertion lands in \<open>st_insert\<close>; \<open>create_checkin\<close> is the
  run in which the two are the same database, that is, in which the requests are
  handled one after another.
\<close>

definition create_checkin_interleaved ::
  "checkin_env \<Rightarrow> db \<Rightarrow> db \<Rightarrow> string \<Rightarrow> CreateCheckInRequest \<Rightarrow> CheckIn response \<times> db" where
  "create_checkin_interleaved env st_read st_insert mess_id payload =
     (case fst (create_checkin env st_read mess_id payload) of
        Return checkin \<Rightarrow>
          (Return checkin, st_insert\<lparr>checkins := checkins st_insert @ [checkin]\<rparr>)
      | HTTPException code detail \<Rightarrow> (HTTPException code detail, st_insert)
      | JSONResponse code message \<Rightarrow> (JSONResponse code message, st_insert))"





section \<open>Signup\<close>

datatype signup_exception =
  ValidationError string | DuplicateError string string | PydanticValidationError

record signup_env =
  new_UserID :: int
  new_created_at :: datetime
  new_updated_at :: datetime
  new_user_id :: oid

text \<open>
  \<open>hash_password\<close> is \<open>PasswordHasher.hash_password\<close> (bcrypt, whose results are 60
  characters long and so pass \<open>min_length=6\<close>), \<open>create_token\<close> is
  \<open>TokenManager.create_token\<close>, and \<open>EmailStr\<close> is the validator of the field
  \<open>email\<close>: \<open>None\<close> when it rejects the address, the address it stores otherwise.
  Constructing the \<open>User\<close> document validates \<open>username\<close> against its declared
  \<open>min_length=3\<close> and \<open>max_length=50\<close> and raises pydantic's own error when a field
  is rejected. A \<open>LoginRole\<close> is a string enumeration: it is truthy when its value is
  not empty.
\<close>

definition signup ::
  "(string \<Rightarrow> string) \<Rightarrow> (string \<Rightarrow> string \<Rightarrow> string) \<Rightarrow> (string \<Rightarrow> string option)
     \<Rightarrow> signup_env \<Rightarrow> db \<Rightarrow> string \<Rightarrow> string \<Rightarrow> string \<Rightarrow> LoginRole
     \<Rightarrow> (signup_exception + User \<times> string) \<times> db" where
  "signup hash_password create_token EmailStr env st username email password login_role =
     (if \<not> (username \<noteq> [] \<and> email \<noteq> [] \<and> password \<noteq> []
             \<and> LoginRole_value login_role \<noteq> [])
      then (Inl (ValidationError ''All fields are required''), st)
      else if length password > 128
      then (Inl (ValidationError ''Password is too long (max 128 characters)''), st)
      else
      (case find (\<lambda>u. u_email u = email) (users st) of
         Some existing_user_by_email \<Rightarrow> (Inl (DuplicateError ''Email'' email), st)
       | None \<Rightarrow>
         (case find (\<lambda>u. u_username u = username) (users st) of
            Some existing_user_by_username \<Rightarrow> (Inl (DuplicateError ''Username'' username), st)
          | None \<Rightarrow>
            let hashed_password = hash_password password
            in if length username < 3 \<or> length username > 50
               then (Inl PydanticValidationError, st)
               else
               (case EmailStr email of
                  None \<Rightarrow> (Inl PydanticValidationError, st)
                | Some validated_email \<Rightarrow>
                  let user =
                        \<lparr>u_id = new_user_id env, u_username = username,
                         u_email = validated_email, u_password = hashed_password,
                         Login_Role = login_role, UserID = new_UserID env,
                         u_created_at = Some (new_created_at env),
                         u_updated_at = Some (new_updated_at env)\<rparr>;
                      token = create_token (str_oid (u_id user)) (LoginRole_value login_role)
                  in (Inr (user, token), st\<lparr>users := users st @ [user]\<rparr>)))))"

section \<open>Rating a mess\<close>

datatype python_exception = InvalidId

text \<open>
  \<open>Mess.add_rating\<close> mutates the document: the result is what the call returns or
  raises, and the document afterwards.
\<close>

definition add_rating :: "Mess \<Rightarrow> string \<Rightarrow> int \<Rightarrow> (python_exception + bool) \<times> Mess" where
  "add_rating m user_id rating =
     (if user_id \<in> set (map str_rater (RatedBy m)) then (Inr False, m)
      else
        let m1 = m\<lparr>Ratings := Ratings m @ [PyInt rating]\<rparr>
        in (case PydanticObjectId user_id of
              None \<Rightarrow> (Inl InvalidId, m1)
            | Some i \<Rightarrow> (Inr True, m1\<lparr>RatedBy := RatedBy m1 @ [RaterObjectId i]\<rparr>)))"

definition has_user_rated :: "Mess \<Rightarrow> string \<Rightarrow> bool" where
  "has_user_rated m user_id = (user_id \<in> set (map str_rater (RatedBy m)))"

text \<open>\<open>MessService.get_mess_by_id\<close>: \<open>None\<close> stands for the raised \<open>NotFoundError\<close>.\<close>

definition get_mess_by_id :: "db \<Rightarrow> string \<Rightarrow> Mess option" where
  "get_mess_by_id st mess_id =
     (case PydanticObjectId mess_id of None \<Rightarrow> None | Some i \<Rightarrow> Mess_get st i)"

definition Mess_save :: "db \<Rightarrow> Mess \<Rightarrow> db" where
  "Mess_save st mess =
     st\<lparr>messes := map (\<lambda>m. if m_id m = m_id mess then mess else m) (messes st)\<rparr>"

record rating_response =
  rr_rating :: real
  rr_total_ratings :: nat

definition update_rating :: "db \<Rightarrow> string \<Rightarrow> string \<Rightarrow> int \<Rightarrow> rating_response response \<times> db" where
  "update_rating st mess_id user_id payload_rating =
     (if payload_rating < 1 \<or> payload_rating > 5
      then (HTTPException 400 ''Rating must be between 1 and 5'', st)
      else
      (case get_mess_by_id st mess_id of
         None \<Rightarrow> (HTTPException 404 ''Mess not found'', st)
       | Some mess \<Rightarrow>
         if has_user_rated mess user_id
         then (HTTPException 400 ''You have already rated this mess'', st)
         else
         (case add_rating mess user_id payload_rating of
            (Inl e, mess') \<Rightarrow> (internal_server_error, st)
          | (Inr added, mess') \<Rightarrow>
            (Return \<lparr>rr_rating = calculate_average_rating mess',
                     rr_total_ratings = length (Ratings mess')\<rparr>,
             Mess_save st mess'))))"

text \<open>The property of a mess document that the rating code is there to keep.\<close>

definition ratings_invariant :: "Mess \<Rightarrow> bool" where
  "ratings_invariant m =
     (length (Ratings m) = length (RatedBy m) \<and> distinct (map str_rater (RatedBy m)))"


section \<open>Definitions used to state the properties\<close>

text \<open>The number of days a plan of a given duration runs.\<close>

definition days_of :: "duration \<Rightarrow> int" where
  "days_of d = (case d of Daily \<Rightarrow> 1 | Weekly \<Rightarrow> 7 | Monthly \<Rightarrow> 30)"

text \<open>The payload \<open>{userId, subscriptionId, planId, messId, mealType, timestamp}\<close>.\<close>

definition qr_payload ::
  "oid \<Rightarrow> oid \<Rightarrow> oid \<Rightarrow> oid \<Rightarrow> plan_meal_type \<Rightarrow> int \<Rightarrow> (string \<times> json_value) list" where
  "qr_payload userId subscriptionId planId messId mealType timestamp =
     [(''userId'', JString (str_oid userId)),
      (''subscriptionId'', JString (str_oid subscriptionId)),
      (''planId'', JString (str_oid planId)),
      (''messId'', JString (str_oid messId)),
      (''mealType'', JString (str_plan_meal_type mealType)),
      (''timestamp'', JNumber timestamp)]"

text \<open>
  A plan after an update: each field holds the payload's value when the payload has one
  and its old value otherwise, and \<open>updated_at\<close> is the time of the update.
\<close>

definition updated_plan :: "UpdatePlanRequest \<Rightarrow> SubscriptionPlan \<Rightarrow> datetime \<Rightarrow> SubscriptionPlan" where
  "updated_plan payload plan now =
     \<lparr>sp_id = sp_id plan, sp_messId = sp_messId plan,
      planName = (case upd_planName payload of None \<Rightarrow> planName plan | Some v \<Rightarrow> v),
      sp_duration = (case upd_duration payload of None \<Rightarrow> sp_duration plan | Some v \<Rightarrow> v),
      sp_mealType = (case upd_mealType payload of None \<Rightarrow> sp_mealType plan | Some v \<Rightarrow> v),
      price = (case upd_price payload of None \<Rightarrow> price plan | Some v \<Rightarrow> v),
      description = (case upd_description payload of None \<Rightarrow> description plan | Some v \<Rightarrow> v),
      sp_isActive = (case upd_isActive payload of None \<Rightarrow> sp_isActive plan | Some v \<Rightarrow> v),
      sp_created_at = sp_created_at plan, sp_updated_at = Some now\<rparr>"

text \<open>The user document that a successful signup inserts.\<close>

definition signed_up_user ::
  "signup_env \<Rightarrow> string \<Rightarrow> string \<Rightarrow> string \<Rightarrow> LoginRole \<Rightarrow> User" where
  "signed_up_user env username validated_email hashed_password login_role =
     \<lparr>u_id = new_user_id env, u_username = username, u_email = validated_email,
      u_password = hashed_password, Login_Role = login_role, UserID = new_UserID env,
      u_created_at = Some (new_created_at env), u_updated_at = Some (new_updated_at env)\<rparr>"

section \<open>Example data\<close>

definition uid_alice :: oid where "uid_alice = ''507f1f77bcf86cd799439011''"
definition uid_owner :: oid where "uid_owner = ''507f1f77bcf86cd799439012''"
definition oid_plan :: oid where "oid_plan = ''507f1f77bcf86cd799439013''"
definition oid_subscription :: oid where "oid_subscription = ''507f1f77bcf86cd799439014''"
definition oid_pass :: oid where "oid_pass = ''507f1f77bcf86cd799439015''"
definition oid_mess :: oid where "oid_mess = ''507f1f77bcf86cd799439016''"
definition oid_new_user :: oid where "oid_new_user = ''507f1f77bcf86cd799439018''"

definition alice :: User where
  "alice = \<lparr>u_id = uid_alice, u_username = ''alice'', u_email = ''alice@example.com'',
     u_password = ''$2b$10$hash'', Login_Role = USER, UserID = 1700000000000,
     u_created_at = Some 0, u_updated_at = Some 0\<rparr>"

definition owner :: User where
  "owner = \<lparr>u_id = uid_owner, u_username = ''owner'', u_email = ''owner@example.com'',
     u_password = ''$2b$10$hash'', Login_Role = MESS_OWNER, UserID = 1700000000001,
     u_created_at = Some 0, u_updated_at = Some 0\<rparr>"

definition weekly_plan :: SubscriptionPlan where
  "weekly_plan = \<lparr>sp_id = oid_plan, sp_messId = uid_owner, planName = ''Weekly veg'',
     sp_duration = Weekly, sp_mealType = Veg, price = 700, description = ''Seven days'',
     sp_isActive = True, sp_created_at = Some 0, sp_updated_at = Some 0\<rparr>"

definition db0 :: db where
  "db0 = \<lparr>users = [alice, owner], subscriptionplans = [weekly_plan], usersubscriptions = [],
     mealpasses = [], checkins = [], messes = []\<rparr>"

text \<open>A stand-in for the digest with results of the same length.\<close>

definition stub_digest :: "string \<Rightarrow> string" where
  "stub_digest s = take 64 (s @ replicate 64 (CHR ''0''))"

definition env0 :: subscribe_env where
  "env0 = \<lparr>start_now = 1000, sub_created = 1001, sub_updated = 1002,
     sub_new_id = oid_subscription, qr_timestamp = 1700000000, pass_created = 1003,
     pass_updated = 1004, pass_new_id = oid_pass, pass_save_raises = False\<rparr>"

definition env0_failing :: subscribe_env where
  "env0_failing = env0\<lparr>pass_save_raises := True\<rparr>"

definition subscribe_request :: SubscribeToPlanRequest where
  "subscribe_request = \<lparr>req_planId = oid_plan, req_userId = uid_alice\<rparr>"

definition alice_subscription :: UserSubscription where
  "alice_subscription = \<lparr>us_id = oid_subscription, us_userId = uid_alice, us_planId = oid_plan,
     startDate = 1000, endDate = 604800001000, us_status = Pending, paymentId = None,
     paymentStatus = Payment_Pending, cancellationReason = None,
     us_created_at = Some 1001, us_updated_at = Some 1002\<rparr>"

definition alice_pass :: MealPass where
  "alice_pass = \<lparr>mp_id = oid_pass, mp_userId = uid_alice, mp_subscriptionId = oid_subscription,
     mp_messId = uid_owner,
     qrCode = stub_digest (json_dumps_sort_keys
        (qr_payload uid_alice oid_subscription oid_plan uid_owner Veg 1700000000)),
     mp_isActive = True, isBlocked = False, blockReason = None,
     validFrom = Some 1000, validTill = Some 604800001000,
     mp_created_at = Some 1003, mp_updated_at = Some 1004\<rparr>"

text \<open>The database after Alice has subscribed to the weekly plan.\<close>

definition db1 :: db where
  "db1 = snd (subscribe_to_plan stub_digest env0 db0 subscribe_request)"

definition legacy_mess :: Mess where
  "legacy_mess = \<lparr>m_id = oid_mess, Mess_ID = 1699123456, Mess_Name = ''Golden Mess'',
     Mobile_No = None, Capacity = Some 100, Address = None, Owner_ID = uid_owner,
     Description = Some [],
     Ratings = [PyInt 4, PyStr ''4.5'', PyStr ''4.5.1'', PyStr ''.'', PyStr ''good'', PyOther],
     RatedBy = [], m_UserID = 1699123456, Image = None,
     m_created_at = Some 0, m_updated_at = Some 0\<rparr>"

definition rename_request :: UpdatePlanRequest where
  "rename_request = \<lparr>upd_planName = Some ''Weekly veg thali'', upd_duration = None,
     upd_mealType = None, upd_price = Some 750, upd_description = None, upd_isActive = None,
     upd_userId = uid_owner\<rparr>"

definition activate_request :: UpdateSubscriptionRequest where
  "activate_request = \<lparr>act_status = Some Active, act_messId = Some uid_owner\<rparr>"

text \<open>The database after the owner has activated Alice's subscription.\<close>

definition db2 :: db where
  "db2 = snd (activate_subscription db1 oid_subscription activate_request 5000 5001)"

definition active_subscription :: UserSubscription where
  "active_subscription = alice_subscription\<lparr>us_status := Active, startDate := 5000,
     endDate := 604800005000, us_updated_at := Some 5001\<rparr>"

text \<open>A stored meal pass that has no \<open>validFrom\<close>, as the document's type allows.\<close>

definition undated_pass :: MealPass where
  "undated_pass = alice_pass\<lparr>validFrom := None\<rparr>"

definition db_undated :: db where
  "db_undated = db2\<lparr>mealpasses := [undated_pass]\<rparr>"





text \<open>Stand-ins for the password hash, the token encoder and the e-mail validator.\<close>

definition stub_hash :: "string \<Rightarrow> string" where
  "stub_hash password = ''$2b$10$'' @ password"

definition stub_token :: "string \<Rightarrow> string \<Rightarrow> string" where
  "stub_token user_id role = user_id @ ''.'' @ role"

definition accept_email :: "string \<Rightarrow> string option" where
  "accept_email address = (if CHR ''@'' \<in> set address then Some address else None)"

definition signup_env0 :: signup_env where
  "signup_env0 = \<lparr>new_UserID = 1700000000002, new_created_at = 7000, new_updated_at = 7001,
     new_user_id = oid_new_user\<rparr>"

text \<open>A mess that Alice has rated, and a database holding it.\<close>

definition rated_mess :: Mess where
  "rated_mess = legacy_mess\<lparr>Ratings := [PyInt 5], RatedBy := [RaterObjectId uid_alice]\<rparr>"

definition db_mess :: db where
  "db_mess = db0\<lparr>messes := [rated_mess]\<rparr>"

definition rated_twice :: Mess where
  "rated_twice = rated_mess\<lparr>Ratings := [PyInt 5, PyInt 3],
     RatedBy := [RaterObjectId uid_alice, RaterObjectId uid_alice]\<rparr>"










section \<open>Lookups\<close>

lemma User_get_id: "User_get st i = Some u \<Longrightarrow> u_id u = i"
  by (auto simp: User_get_def find_Some_iff)

lemma SubscriptionPlan_get_id: "SubscriptionPlan_get st i = Some p \<Longrightarrow> sp_id p = i"
  by (auto simp: SubscriptionPlan_get_def find_Some_iff)

lemma UserSubscription_get_id: "UserSubscription_get st i = Some s \<Longrightarrow> us_id s = i"
  by (auto simp: UserSubscription_get_def find_Some_iff)


lemma find_Some_Bex: "(\<exists>x. find P xs = Some x) \<longleftrightarrow> (\<exists>x\<in>set xs. P x)"
  by (cases "find P xs") (auto simp: find_None_iff find_Some_iff)

lemma end_date_for_days: "end_date_for d t = t + timedelta_days (days_of d)"
  by (cases d) (simp_all add: end_date_for_def days_of_def)

lemmas example_defs = uid_alice_def uid_owner_def oid_plan_def oid_subscription_def
  oid_pass_def alice_def owner_def weekly_plan_def db0_def env0_def subscribe_request_def
  alice_subscription_def alice_pass_def

lemmas eval_defs = PydanticObjectId_def is_hex_digit_def lower_hex_def str_oid_def
  User_get_def SubscriptionPlan_get_def UserSubscription_get_def MealPass_get_def
  Mess_get_def is_regular_user_def is_mess_owner_def end_date_for_def timedelta_days_def
  internal_server_error_def days_of_def

lemma db1_eval:
  "db1 = db0\<lparr>usersubscriptions := [alice_subscription], mealpasses := [alice_pass]\<rparr>"
  by (simp add: db1_def subscribe_to_plan_def example_defs eval_defs Let_def qr_payload_def)

section \<open>The average rating\<close>

lemma is_digit_not_dot: "is_digit c \<Longrightarrow> c \<noteq> CHR ''.''"
  by (auto simp: is_digit_def)

lemma all_digit_replace_first_dot:
  "list_all is_digit (replace_first_dot s) \<longleftrightarrow>
     list_all (\<lambda>c. is_digit c \<or> c = CHR ''.'') s
     \<and> length (filter (\<lambda>c. c = CHR ''.'') s) \<le> 1"
proof (induction s)
  case Nil
  then show ?case by simp
next
  case (Cons c cs)
  show ?case
  proof (cases "c = CHR ''.''")
    case True
    have "list_all is_digit cs \<longleftrightarrow>
        list_all (\<lambda>c. is_digit c \<or> c = CHR ''.'') cs \<and> filter (\<lambda>c. c = CHR ''.'') cs = []"
      by (induction cs) (auto dest: is_digit_not_dot)
    with True show ?thesis by simp
  next
    case False
    with Cons show ?thesis by simp
  qed
qed

lemma nonempty_replace_first_dot:
  "list_all is_digit (replace_first_dot s) \<Longrightarrow>
     replace_first_dot s \<noteq> [] \<longleftrightarrow> list_ex is_digit s"
proof (induction s)
  case Nil
  then show ?case by simp
next
  case (Cons c cs)
  show ?case
  proof (cases "c = CHR ''.''")
    case True
    with Cons.prems have "list_all is_digit cs" by simp
    then have "cs \<noteq> [] \<longleftrightarrow> list_ex is_digit cs" by (cases cs) auto
    with True show ?thesis by (auto dest: is_digit_not_dot)
  next
    case False
    with Cons.prems show ?thesis by auto
  qed
qed

lemma isdigit_replace_first_dot:
  "isdigit (replace_first_dot s) \<longleftrightarrow> digits_with_at_most_one_point s"
  unfolding isdigit_def digits_with_at_most_one_point_def
  using all_digit_replace_first_dot [of s] nonempty_replace_first_dot [of s] by blast

lemma collect_valid_ratings_filter:
  "collect_valid_ratings rs acc = acc @ map numeric_value (filter numeric_convertible rs)"
  by (induction rs acc rule: collect_valid_ratings.induct)
     (simp_all add: isdigit_replace_first_dot)

text \<open>
  C2. For every mess document, \<open>calculate_average_rating\<close> returns 0 when no entry of
  \<open>Ratings\<close> is numeric-convertible (in particular when \<open>Ratings\<close> is empty), and
  otherwise the sum of the numeric-convertible entries divided by their number: ints and
  floats count as themselves, strings made of digits with at most one full stop count as
  the decimal number they spell, and every other entry is left out of both the sum and
  the count.
\<close>

theorem calculate_average_rating_is_mean:
  "calculate_average_rating m = spec_average_rating (Ratings m)"
  by (simp add: calculate_average_rating_def spec_average_rating_def
      collect_valid_ratings_filter Let_def)

theorem calculate_average_rating_is_mean_witness:
  "calculate_average_rating legacy_mess = 17 / 4
   \<and> calculate_average_rating (legacy_mess\<lparr>Ratings := [PyStr ''..'', PyOther]\<rparr>) = 0"
  using calculate_average_rating_is_mean [of legacy_mess]
    calculate_average_rating_is_mean [of "legacy_mess\<lparr>Ratings := [PyStr ''..'', PyOther]\<rparr>"]
  by (simp add: legacy_mess_def spec_average_rating_def digits_with_at_most_one_point_def
      is_digit_def float_of_str_def nat_of_digits_def digit_val_def)

section \<open>Subscribing to a plan\<close>

text \<open>The serialisation of a payload, with its keys in ascending order.\<close>

lemma qr_payload_text:
  \<open>json_dumps_sort_keys (qr_payload uid_alice oid_subscription oid_plan uid_owner Non_Veg 1700000000) =
     ''{"mealType": "Non-Veg", "messId": "507f1f77bcf86cd799439012", "planId": "507f1f77bcf86cd799439013", "subscriptionId": "507f1f77bcf86cd799439014", "timestamp": 1700000000, "userId": "507f1f77bcf86cd799439011"}''\<close>
  by (simp add: json_dumps_sort_keys_def qr_payload_def sort_keys_def dumps_item_def
      str_int_def digit_char_def example_defs str_oid_def)

text \<open>
  C1 (amended). For every call of \<open>subscribe_to_plan\<close> that succeeds and whose meal pass
  is saved without an exception: the user exists and is a regular user, the plan exists
  and is active, and the user had no subscription to the plan; the subscription returned
  is appended to the stored subscriptions with \<open>startDate\<close> equal to the current time,
  \<open>endDate\<close> equal to \<open>startDate\<close> plus 1, 7 or 30 days for a daily, weekly or monthly
  plan, and status \<open>Pending\<close>; and one meal pass is appended to the stored passes, with
  \<open>validFrom = startDate\<close>, \<open>validTill = endDate\<close> and \<open>qrCode\<close> equal to the digest
  of the sorted-key JSON serialisation of the payload
  \<open>{userId, subscriptionId, planId, messId, mealType, timestamp}\<close>.
\<close>

theorem subscribe_to_plan_persists:
  assumes ok: "fst (subscribe_to_plan sha256_hexdigest env st payload) = Return sub"
    and saved: "\<not> pass_save_raises env"
  shows "\<exists>uid user pid plan mp.
      PydanticObjectId (req_userId payload) = Some uid \<and> User_get st uid = Some user
    \<and> is_regular_user user
    \<and> PydanticObjectId (req_planId payload) = Some pid
    \<and> SubscriptionPlan_get st pid = Some plan \<and> sp_isActive plan
    \<and> (\<forall>s\<in>set (usersubscriptions st). \<not> (us_userId s = uid \<and> us_planId s = pid))
    \<and> snd (subscribe_to_plan sha256_hexdigest env st payload) =
        st\<lparr>usersubscriptions := usersubscriptions st @ [sub],
           mealpasses := mealpasses st @ [mp]\<rparr>
    \<and> us_userId sub = uid \<and> us_planId sub = pid
    \<and> startDate sub = start_now env
    \<and> endDate sub = startDate sub + timedelta_days (days_of (sp_duration plan))
    \<and> us_status sub = Pending
    \<and> mp_userId mp = uid \<and> mp_subscriptionId mp = us_id sub \<and> mp_messId mp = sp_messId plan
    \<and> validFrom mp = Some (startDate sub) \<and> validTill mp = Some (endDate sub)
    \<and> qrCode mp = sha256_hexdigest (json_dumps_sort_keys
         (qr_payload uid (us_id sub) pid (sp_messId plan) (sp_mealType plan) (qr_timestamp env)))"
proof -
  let ?r = "subscribe_to_plan sha256_hexdigest env st payload"
  obtain uid where 1: "PydanticObjectId (req_userId payload) = Some uid"
    using ok by (cases "PydanticObjectId (req_userId payload)")
      (auto simp: subscribe_to_plan_def internal_server_error_def)
  obtain user where 2: "User_get st uid = Some user"
    using ok 1 by (cases "User_get st uid") (auto simp: subscribe_to_plan_def)
  have 3: "is_regular_user user"
    using ok 1 2 by (auto simp: subscribe_to_plan_def split: if_splits)
  obtain pid where 4: "PydanticObjectId (req_planId payload) = Some pid"
    using ok 1 2 3 by (cases "PydanticObjectId (req_planId payload)")
      (auto simp: subscribe_to_plan_def internal_server_error_def)
  obtain plan where 5: "SubscriptionPlan_get st pid = Some plan"
    using ok 1 2 3 4 by (cases "SubscriptionPlan_get st pid") (auto simp: subscribe_to_plan_def)
  have 6: "sp_isActive plan"
    using ok 1 2 3 4 5 by (auto simp: subscribe_to_plan_def split: if_splits)
  have ids: "u_id user = uid" "sp_id plan = pid"
    using 2 5 User_get_id SubscriptionPlan_get_id by auto
  have 7: "find (\<lambda>s. us_userId s = uid \<and> us_planId s = pid) (usersubscriptions st) = None"
    using ok 1 2 3 4 5 6 ids
    by (cases "find (\<lambda>s. us_userId s = uid \<and> us_planId s = pid) (usersubscriptions st)")
       (auto simp: subscribe_to_plan_def)
  then have 8: "\<forall>s\<in>set (usersubscriptions st). \<not> (us_userId s = uid \<and> us_planId s = pid)"
    by (simp add: find_None_iff)
  define mp where "mp =
      \<lparr>mp_id = pass_new_id env, mp_userId = uid, mp_subscriptionId = sub_new_id env,
       mp_messId = sp_messId plan,
       qrCode = sha256_hexdigest (json_dumps_sort_keys
         (qr_payload uid (sub_new_id env) pid (sp_messId plan) (sp_mealType plan)
            (qr_timestamp env))),
       mp_isActive = True, isBlocked = False, blockReason = None,
       validFrom = Some (start_now env),
       validTill = Some (end_date_for (sp_duration plan) (start_now env)),
       mp_created_at = Some (pass_created env), mp_updated_at = Some (pass_updated env)\<rparr>"
  have sub: "sub = \<lparr>us_id = sub_new_id env, us_userId = uid, us_planId = pid,
       startDate = start_now env, endDate = end_date_for (sp_duration plan) (start_now env),
       us_status = Pending, paymentId = None, paymentStatus = Payment_Pending,
       cancellationReason = None, us_created_at = Some (sub_created env),
       us_updated_at = Some (sub_updated env)\<rparr>"
    using ok 1 2 3 4 5 6 7 ids saved by (simp add: subscribe_to_plan_def Let_def)
  have st': "snd ?r = st\<lparr>usersubscriptions := usersubscriptions st @ [sub],
           mealpasses := mealpasses st @ [mp]\<rparr>"
    using 1 2 3 4 5 6 7 ids saved
    by (simp add: subscribe_to_plan_def Let_def sub mp_def qr_payload_def)
  have props: "us_userId sub = uid" "us_planId sub = pid" "startDate sub = start_now env"
    "endDate sub = startDate sub + timedelta_days (days_of (sp_duration plan))"
    "us_status sub = Pending"
    by (simp_all add: sub end_date_for_days)
  have mprops: "mp_userId mp = uid" "mp_subscriptionId mp = us_id sub"
    "mp_messId mp = sp_messId plan" "validFrom mp = Some (startDate sub)"
    "validTill mp = Some (endDate sub)"
    "qrCode mp = sha256_hexdigest (json_dumps_sort_keys
         (qr_payload uid (us_id sub) pid (sp_messId plan) (sp_mealType plan) (qr_timestamp env)))"
    by (simp_all add: mp_def sub)
  from 1 2 3 4 5 6 8 st' props mprops show ?thesis by blast
qed

theorem subscribe_to_plan_persists_witness:
  "fst (subscribe_to_plan stub_digest env0 db0 subscribe_request) = Return alice_subscription
   \<and> \<not> pass_save_raises env0
   \<and> (\<exists>mp. snd (subscribe_to_plan stub_digest env0 db0 subscribe_request) =
              db0\<lparr>usersubscriptions := usersubscriptions db0 @ [alice_subscription],
                  mealpasses := mealpasses db0 @ [mp]\<rparr>
          \<and> startDate alice_subscription = start_now env0
          \<and> us_status alice_subscription = Pending
          \<and> validFrom mp = Some (startDate alice_subscription)
          \<and> validTill mp = Some (endDate alice_subscription))"
proof -
  have ok: "fst (subscribe_to_plan stub_digest env0 db0 subscribe_request) = Return alice_subscription"
    by (simp add: subscribe_to_plan_def example_defs eval_defs Let_def)
  have saved: "\<not> pass_save_raises env0"
    by (simp add: env0_def)
  from subscribe_to_plan_persists [OF ok saved] ok saved show ?thesis
    by blast
qed

text \<open>
  Without the condition on the save the property fails: when saving the meal pass raises,
  the call still succeeds and the subscription is stored, but no meal pass is.
\<close>

theorem subscribe_to_plan_pass_not_persisted:
  "fst (subscribe_to_plan stub_digest env0_failing db0 subscribe_request) = Return alice_subscription
   \<and> usersubscriptions (snd (subscribe_to_plan stub_digest env0_failing db0 subscribe_request))
       = [alice_subscription]
   \<and> mealpasses (snd (subscribe_to_plan stub_digest env0_failing db0 subscribe_request)) = []"
  by (simp add: subscribe_to_plan_def env0_failing_def example_defs eval_defs Let_def)

text \<open>
  C4. For every call of \<open>subscribe_to_plan\<close> by an existing regular user for an
  existing active plan, the request fails with status 400 and the detail "You have
  already subscribed to this plan before. Each plan can only be subscribed once." if and
  only if a stored subscription has the same user and plan; and when it fails so the
  database is unchanged: no subscription and no meal pass is added.
\<close>

theorem subscribe_twice_rejected:
  assumes "PydanticObjectId (req_userId payload) = Some uid"
    and "User_get st uid = Some user"
    and "is_regular_user user"
    and "PydanticObjectId (req_planId payload) = Some pid"
    and "SubscriptionPlan_get st pid = Some plan"
    and "sp_isActive plan"
  shows "(fst (subscribe_to_plan sha256_hexdigest env st payload) =
            HTTPException 400 ''You have already subscribed to this plan before. Each plan can only be subscribed once.''
          \<longleftrightarrow> (\<exists>s\<in>set (usersubscriptions st). us_userId s = uid \<and> us_planId s = pid))
       \<and> (fst (subscribe_to_plan sha256_hexdigest env st payload) =
            HTTPException 400 ''You have already subscribed to this plan before. Each plan can only be subscribed once.''
          \<longrightarrow> snd (subscribe_to_plan sha256_hexdigest env st payload) = st)"
proof -
  have ids: "u_id user = uid" "sp_id plan = pid"
    using assms User_get_id SubscriptionPlan_get_id by auto
  show ?thesis
  proof (cases "find (\<lambda>s. us_userId s = uid \<and> us_planId s = pid) (usersubscriptions st)")
    case None
    then have "\<not> (\<exists>s\<in>set (usersubscriptions st). us_userId s = uid \<and> us_planId s = pid)"
      by (simp add: find_None_iff)
    with None assms ids show ?thesis
      by (simp add: subscribe_to_plan_def Let_def)
  next
    case (Some s)
    then have "\<exists>s\<in>set (usersubscriptions st). us_userId s = uid \<and> us_planId s = pid"
      using find_Some_Bex [of "\<lambda>s. us_userId s = uid \<and> us_planId s = pid" "usersubscriptions st"]
      by blast
    with Some assms ids show ?thesis
      by (simp add: subscribe_to_plan_def)
  qed
qed

theorem subscribe_twice_rejected_witness:
  "PydanticObjectId (req_userId subscribe_request) = Some uid_alice
   \<and> User_get db1 uid_alice = Some alice \<and> is_regular_user alice
   \<and> PydanticObjectId (req_planId subscribe_request) = Some oid_plan
   \<and> SubscriptionPlan_get db1 oid_plan = Some weekly_plan \<and> sp_isActive weekly_plan
   \<and> (\<exists>s\<in>set (usersubscriptions db1). us_userId s = uid_alice \<and> us_planId s = oid_plan)
   \<and> fst (subscribe_to_plan stub_digest env0 db1 subscribe_request) =
         HTTPException 400 ''You have already subscribed to this plan before. Each plan can only be subscribed once.''
   \<and> snd (subscribe_to_plan stub_digest env0 db1 subscribe_request) = db1
   \<and> \<not> (\<exists>s\<in>set (usersubscriptions db0). us_userId s = uid_alice \<and> us_planId s = oid_plan)
   \<and> fst (subscribe_to_plan stub_digest env0 db0 subscribe_request) \<noteq>
         HTTPException 400 ''You have already subscribed to this plan before. Each plan can only be subscribed once.''"
proof -
  have h1: "PydanticObjectId (req_userId subscribe_request) = Some uid_alice"
    and h4: "PydanticObjectId (req_planId subscribe_request) = Some oid_plan"
    by (simp_all add: example_defs eval_defs)
  have h2: "User_get db1 uid_alice = Some alice" and h5: "SubscriptionPlan_get db1 oid_plan = Some weekly_plan"
    and h2': "User_get db0 uid_alice = Some alice" and h5': "SubscriptionPlan_get db0 oid_plan = Some weekly_plan"
    by (simp_all add: db1_eval example_defs eval_defs)
  have h3: "is_regular_user alice" and h6: "sp_isActive weekly_plan"
    by (simp_all add: example_defs eval_defs)
  have ex: "\<exists>s\<in>set (usersubscriptions db1). us_userId s = uid_alice \<and> us_planId s = oid_plan"
    by (simp add: db1_eval example_defs)
  have nex: "\<not> (\<exists>s\<in>set (usersubscriptions db0). us_userId s = uid_alice \<and> us_planId s = oid_plan)"
    by (simp add: db0_def)
  from subscribe_twice_rejected [OF h1 h2 h3 h4 h5 h6, of stub_digest env0]
    subscribe_twice_rejected [OF h1 h2' h3 h4 h5' h6, of stub_digest env0]
    h1 h2 h3 h4 h5 h6 ex nex
  show ?thesis by blast
qed

text \<open>
  C9. If saving the meal pass raises during \<open>subscribe_to_plan\<close> (for an existing
  regular user, an existing active plan and no earlier subscription of the user to the
  plan), the handler still returns the subscription: the subscription stays stored, the
  stored meal passes are the ones from before, and the answer is the same as the one of
  the run in which the save succeeds, so the caller cannot tell the two apart.
\<close>

theorem subscribe_to_plan_swallows:
  assumes "PydanticObjectId (req_userId payload) = Some uid"
    and "User_get st uid = Some user"
    and "is_regular_user user"
    and "PydanticObjectId (req_planId payload) = Some pid"
    and "SubscriptionPlan_get st pid = Some plan"
    and "sp_isActive plan"
    and "\<forall>s\<in>set (usersubscriptions st). \<not> (us_userId s = uid \<and> us_planId s = pid)"
    and "pass_save_raises env"
  shows "\<exists>sub. subscribe_to_plan sha256_hexdigest env st payload =
             (Return sub, st\<lparr>usersubscriptions := usersubscriptions st @ [sub]\<rparr>)
          \<and> us_userId sub = uid \<and> us_planId sub = pid
          \<and> mealpasses (snd (subscribe_to_plan sha256_hexdigest env st payload)) = mealpasses st
          \<and> fst (subscribe_to_plan sha256_hexdigest (env\<lparr>pass_save_raises := False\<rparr>) st payload)
              = Return sub"
proof -
  have ids: "u_id user = uid" "sp_id plan = pid"
    using assms User_get_id SubscriptionPlan_get_id by auto
  have none: "find (\<lambda>s. us_userId s = uid \<and> us_planId s = pid) (usersubscriptions st) = None"
    using assms(7) by (simp add: find_None_iff)
  show ?thesis
    using assms(1-6,8) ids none by (simp add: subscribe_to_plan_def Let_def)
qed

theorem subscribe_to_plan_swallows_witness:
  "PydanticObjectId (req_userId subscribe_request) = Some uid_alice
   \<and> User_get db0 uid_alice = Some alice \<and> is_regular_user alice
   \<and> PydanticObjectId (req_planId subscribe_request) = Some oid_plan
   \<and> SubscriptionPlan_get db0 oid_plan = Some weekly_plan \<and> sp_isActive weekly_plan
   \<and> \<not> (\<exists>s\<in>set (usersubscriptions db0). us_userId s = uid_alice \<and> us_planId s = oid_plan)
   \<and> pass_save_raises env0_failing
   \<and> (\<exists>sub. subscribe_to_plan stub_digest env0_failing db0 subscribe_request =
             (Return sub, db0\<lparr>usersubscriptions := usersubscriptions db0 @ [sub]\<rparr>)
          \<and> mealpasses (snd (subscribe_to_plan stub_digest env0_failing db0 subscribe_request))
              = mealpasses db0
          \<and> fst (subscribe_to_plan stub_digest (env0_failing\<lparr>pass_save_raises := False\<rparr>) db0
                   subscribe_request) = Return sub)"
proof -
  have h1: "PydanticObjectId (req_userId subscribe_request) = Some uid_alice"
    and h4: "PydanticObjectId (req_planId subscribe_request) = Some oid_plan"
    by (simp_all add: example_defs eval_defs)
  have h2: "User_get db0 uid_alice = Some alice"
    and h5: "SubscriptionPlan_get db0 oid_plan = Some weekly_plan"
    by (simp_all add: example_defs eval_defs)
  have h3: "is_regular_user alice" and h6: "sp_isActive weekly_plan"
    by (simp_all add: example_defs eval_defs)
  have h7: "\<forall>s\<in>set (usersubscriptions db0). \<not> (us_userId s = uid_alice \<and> us_planId s = oid_plan)"
    by (simp add: db0_def)
  have h8: "pass_save_raises env0_failing"
    by (simp add: env0_failing_def)
  from subscribe_to_plan_swallows [OF h1 h2 h3 h4 h5 h6 h7 h8, of stub_digest]
    h1 h2 h3 h4 h5 h6 h7 h8
  show ?thesis by blast
qed

section \<open>Updating a plan\<close>

lemma apply_update_data_fields:
  "(apply_update_data payload plan)\<lparr>sp_updated_at := Some now\<rparr> = updated_plan payload plan now"
  by (simp add: apply_update_data_def updated_plan_def Let_def split: option.splits)

text \<open>
  C6 (amended). For every call of \<open>update_plan\<close> on an existing plan whose \<open>userId\<close>
  is a well-formed object identifier, the plan is modified if and only if the requesting
  user exists, is a mess owner, and \<open>str(plan.messId)\<close> equals the requesting
  \<open>userId\<close>. When it is modified, exactly the fields for which the payload holds a
  value are overwritten, \<open>updated_at\<close> becomes the current time, and the stored plan
  is replaced by the result. Otherwise the call raises status 403 with the detail "You
  can only update your own plans" and the database is unchanged. When \<open>userId\<close> is not
  a well-formed object identifier the call raises status 500 and the database is
  unchanged.
\<close>

theorem update_plan_owner_only:
  assumes "PydanticObjectId plan_id = Some pid"
    and "SubscriptionPlan_get st pid = Some plan"
  shows "(PydanticObjectId (upd_userId payload) = None \<longrightarrow>
            update_plan st plan_id payload now = (HTTPException 500 ''Internal server error'', st))
       \<and> (\<forall>uid. PydanticObjectId (upd_userId payload) = Some uid \<longrightarrow>
            ((\<exists>p. fst (update_plan st plan_id payload now) = Return p) \<longleftrightarrow>
               (\<exists>user. User_get st uid = Some user \<and> is_mess_owner user)
               \<and> str_oid (sp_messId plan) = upd_userId payload)
          \<and> ((\<exists>user. User_get st uid = Some user \<and> is_mess_owner user)
               \<and> str_oid (sp_messId plan) = upd_userId payload \<longrightarrow>
              update_plan st plan_id payload now =
                (Return (updated_plan payload plan now),
                 st\<lparr>subscriptionplans :=
                      map (\<lambda>p. if sp_id p = pid then updated_plan payload plan now else p)
                          (subscriptionplans st)\<rparr>))
          \<and> (\<not> ((\<exists>user. User_get st uid = Some user \<and> is_mess_owner user)
               \<and> str_oid (sp_messId plan) = upd_userId payload) \<longrightarrow>
              update_plan st plan_id payload now =
                (HTTPException 403 ''You can only update your own plans'', st)))"
proof -
  have pid: "sp_id plan = pid" using assms SubscriptionPlan_get_id by auto
  have upid: "sp_id (updated_plan payload plan now) = pid"
    by (simp add: updated_plan_def pid)
  show ?thesis
    using assms upid
    by (auto simp: update_plan_def internal_server_error_def Let_def apply_update_data_fields
        SubscriptionPlan_save_def split: option.splits)
qed

theorem update_plan_owner_only_witness:
  "PydanticObjectId oid_plan = Some oid_plan
   \<and> SubscriptionPlan_get db0 oid_plan = Some weekly_plan
   \<and> PydanticObjectId (upd_userId rename_request) = Some uid_owner
   \<and> User_get db0 uid_owner = Some owner \<and> is_mess_owner owner
   \<and> str_oid (sp_messId weekly_plan) = upd_userId rename_request
   \<and> update_plan db0 oid_plan rename_request 5000 =
       (Return (updated_plan rename_request weekly_plan 5000),
        db0\<lparr>subscriptionplans := [updated_plan rename_request weekly_plan 5000]\<rparr>)
   \<and> planName (updated_plan rename_request weekly_plan 5000) = ''Weekly veg thali''
   \<and> sp_mealType (updated_plan rename_request weekly_plan 5000) = sp_mealType weekly_plan
   \<and> PydanticObjectId (upd_userId (rename_request\<lparr>upd_userId := uid_alice\<rparr>)) = Some uid_alice
   \<and> \<not> (\<exists>user. User_get db0 uid_alice = Some user \<and> is_mess_owner user)
   \<and> update_plan db0 oid_plan (rename_request\<lparr>upd_userId := uid_alice\<rparr>) 5000 =
       (HTTPException 403 ''You can only update your own plans'', db0)
   \<and> PydanticObjectId (upd_userId (rename_request\<lparr>upd_userId := ''owner''\<rparr>)) = None
   \<and> update_plan db0 oid_plan (rename_request\<lparr>upd_userId := ''owner''\<rparr>) 5000 =
       (HTTPException 500 ''Internal server error'', db0)"
proof -
  have h1: "PydanticObjectId oid_plan = Some oid_plan"
    and h2: "SubscriptionPlan_get db0 oid_plan = Some weekly_plan"
    and h3: "PydanticObjectId (upd_userId rename_request) = Some uid_owner"
    and h4: "User_get db0 uid_owner = Some owner" "is_mess_owner owner"
    and h5: "str_oid (sp_messId weekly_plan) = upd_userId rename_request"
    and h6: "PydanticObjectId (upd_userId (rename_request\<lparr>upd_userId := uid_alice\<rparr>)) = Some uid_alice"
    and h7: "\<not> (\<exists>user. User_get db0 uid_alice = Some user \<and> is_mess_owner user)"
    and h8: "PydanticObjectId (upd_userId (rename_request\<lparr>upd_userId := ''owner''\<rparr>)) = None"
    by (simp_all add: example_defs eval_defs rename_request_def)
  have map: "map (\<lambda>p. if sp_id p = oid_plan then updated_plan rename_request weekly_plan 5000 else p)
               (subscriptionplans db0) = [updated_plan rename_request weekly_plan 5000]"
    by (simp add: db0_def weekly_plan_def)
  have flds: "planName (updated_plan rename_request weekly_plan 5000) = ''Weekly veg thali''"
    "sp_mealType (updated_plan rename_request weekly_plan 5000) = sp_mealType weekly_plan"
    by (simp_all add: updated_plan_def rename_request_def)
  from update_plan_owner_only [OF h1 h2, of rename_request 5000] h3 h4 h5
  have a: "update_plan db0 oid_plan rename_request 5000 =
       (Return (updated_plan rename_request weekly_plan 5000),
        db0\<lparr>subscriptionplans := [updated_plan rename_request weekly_plan 5000]\<rparr>)"
    unfolding map by blast
  from update_plan_owner_only [OF h1 h2, of "rename_request\<lparr>upd_userId := uid_alice\<rparr>" 5000] h6 h7
  have b: "update_plan db0 oid_plan (rename_request\<lparr>upd_userId := uid_alice\<rparr>) 5000 =
       (HTTPException 403 ''You can only update your own plans'', db0)"
    by blast
  from update_plan_owner_only [OF h1 h2, of "rename_request\<lparr>upd_userId := ''owner''\<rparr>" 5000] h8
  have c: "update_plan db0 oid_plan (rename_request\<lparr>upd_userId := ''owner''\<rparr>) 5000 =
       (HTTPException 500 ''Internal server error'', db0)"
    by blast
  from h1 h2 h3 h4 h5 h6 h7 h8 a b c flds show ?thesis by blast
qed

text \<open>
  Without the condition on \<open>userId\<close> the property fails: for a requester \<open>owner\<close>,
  which is the identifier of no user, the answer is status 500 and not 403.
\<close>

theorem update_plan_malformed_user_id:
  "SubscriptionPlan_get db0 oid_plan = Some weekly_plan
   \<and> fst (update_plan db0 oid_plan (rename_request\<lparr>upd_userId := ''owner''\<rparr>) 5000)
       = HTTPException 500 ''Internal server error''"
  by (simp add: update_plan_def example_defs eval_defs rename_request_def)

section \<open>Activating a subscription\<close>

lemma activate_subscription_mealpasses:
  "mealpasses (snd (activate_subscription st subscription_id payload t1 t2)) = mealpasses st"
  by (simp add: activate_subscription_def UserSubscription_save_def Let_def
      split: option.splits)

text \<open>
  C10. \<open>activate_subscription\<close> modifies no meal pass, whatever the request. With
  status \<open>Active\<close> (subscription and plan found, request authorised) it stores the
  subscription with \<open>startDate\<close> equal to the current time and \<open>endDate\<close> equal to
  that time plus 1, 7 or 30 days by the plan's duration. Every meal pass of the
  subscription is still stored with the \<open>validFrom\<close> it had, so a pass whose
  \<open>validFrom\<close> is not the time of activation has a window that differs from the
  subscription's.
\<close>

theorem activate_subscription_keeps_passes:
  "mealpasses (snd (activate_subscription st subscription_id payload now_status now_updated))
     = mealpasses st
   \<and> (\<forall>sid sub plan.
         PydanticObjectId subscription_id = Some sid
         \<and> UserSubscription_get st sid = Some sub
         \<and> SubscriptionPlan_get st (us_planId sub) = Some plan
         \<and> (act_messId payload = None \<or> act_messId payload = Some []
              \<or> act_messId payload = Some (str_oid (sp_messId plan)))
         \<and> act_status payload = Some Active
       \<longrightarrow> (\<exists>sub'. activate_subscription st subscription_id payload now_status now_updated
                     = (Return sub', UserSubscription_save st sub')
               \<and> us_id sub' = sid \<and> us_status sub' = Active
               \<and> startDate sub' = now_status
               \<and> endDate sub' = now_status + timedelta_days (days_of (sp_duration plan))
               \<and> (\<forall>mp\<in>set (mealpasses st).
                     mp_subscriptionId mp = sid \<and> validFrom mp \<noteq> Some now_status
                   \<longrightarrow> mp \<in> set (mealpasses (snd (activate_subscription st subscription_id
                                                     payload now_status now_updated)))
                       \<and> validFrom mp \<noteq> Some (startDate sub'))))"
proof (intro conjI allI impI)
  show "mealpasses (snd (activate_subscription st subscription_id payload now_status now_updated))
     = mealpasses st"
    by (rule activate_subscription_mealpasses)
next
  fix sid sub plan
  assume h: "PydanticObjectId subscription_id = Some sid
         \<and> UserSubscription_get st sid = Some sub
         \<and> SubscriptionPlan_get st (us_planId sub) = Some plan
         \<and> (act_messId payload = None \<or> act_messId payload = Some []
              \<or> act_messId payload = Some (str_oid (sp_messId plan)))
         \<and> act_status payload = Some Active"
  let ?s = "sub\<lparr>us_status := Active, startDate := now_status,
                 endDate := now_status + timedelta_days (days_of (sp_duration plan)),
                 us_updated_at := Some now_updated\<rparr>"
  have id: "us_id sub = sid" using h UserSubscription_get_id by blast
  have r: "activate_subscription st subscription_id payload now_status now_updated
             = (Return ?s, UserSubscription_save st ?s)"
    using h by (auto simp: activate_subscription_def Let_def end_date_for_days split: option.splits)
  have "us_id ?s = sid \<and> us_status ?s = Active \<and> startDate ?s = now_status
        \<and> endDate ?s = now_status + timedelta_days (days_of (sp_duration plan))"
    using id by simp
  moreover have "\<forall>mp\<in>set (mealpasses st).
                     mp_subscriptionId mp = sid \<and> validFrom mp \<noteq> Some now_status
                   \<longrightarrow> mp \<in> set (mealpasses (snd (activate_subscription st subscription_id
                                                     payload now_status now_updated)))
                       \<and> validFrom mp \<noteq> Some (startDate ?s)"
    by (simp add: activate_subscription_mealpasses)
  ultimately show "\<exists>sub'. activate_subscription st subscription_id payload now_status now_updated
                     = (Return sub', UserSubscription_save st sub')
               \<and> us_id sub' = sid \<and> us_status sub' = Active
               \<and> startDate sub' = now_status
               \<and> endDate sub' = now_status + timedelta_days (days_of (sp_duration plan))
               \<and> (\<forall>mp\<in>set (mealpasses st).
                     mp_subscriptionId mp = sid \<and> validFrom mp \<noteq> Some now_status
                   \<longrightarrow> mp \<in> set (mealpasses (snd (activate_subscription st subscription_id
                                                     payload now_status now_updated)))
                       \<and> validFrom mp \<noteq> Some (startDate sub'))"
    using r by blast
qed

theorem activate_subscription_keeps_passes_witness:
  "PydanticObjectId oid_subscription = Some oid_subscription
   \<and> UserSubscription_get db1 oid_subscription = Some alice_subscription
   \<and> SubscriptionPlan_get db1 (us_planId alice_subscription) = Some weekly_plan
   \<and> act_messId activate_request = Some (str_oid (sp_messId weekly_plan))
   \<and> act_status activate_request = Some Active
   \<and> alice_pass \<in> set (mealpasses db1) \<and> mp_subscriptionId alice_pass = oid_subscription
   \<and> validFrom alice_pass \<noteq> Some 5000
   \<and> mealpasses (snd (activate_subscription db1 oid_subscription activate_request 5000 5001))
       = mealpasses db1
   \<and> (\<exists>sub'. activate_subscription db1 oid_subscription activate_request 5000 5001
                = (Return sub', UserSubscription_save db1 sub')
          \<and> us_status sub' = Active \<and> startDate sub' = 5000
          \<and> endDate sub' = 5000 + timedelta_days (days_of (sp_duration weekly_plan))
          \<and> alice_pass \<in> set (mealpasses (snd (activate_subscription db1 oid_subscription
                                                  activate_request 5000 5001)))
          \<and> validFrom alice_pass \<noteq> Some (startDate sub'))"
proof -
  have h1: "PydanticObjectId oid_subscription = Some oid_subscription"
    and h2: "UserSubscription_get db1 oid_subscription = Some alice_subscription"
    and h3: "SubscriptionPlan_get db1 (us_planId alice_subscription) = Some weekly_plan"
    and h4: "act_messId activate_request = Some (str_oid (sp_messId weekly_plan))"
    and h5: "act_status activate_request = Some Active"
    and h6: "alice_pass \<in> set (mealpasses db1)" "mp_subscriptionId alice_pass = oid_subscription"
      "validFrom alice_pass \<noteq> Some 5000"
    by (simp_all add: db1_eval example_defs eval_defs activate_request_def)
  from activate_subscription_keeps_passes [of db1 oid_subscription activate_request 5000 5001]
    h1 h2 h3 h4 h5 h6
  show ?thesis by blast
qed

section \<open>Validating a meal pass\<close>

lemma db2_eval:
  "db2 = db0\<lparr>usersubscriptions := [active_subscription], mealpasses := [alice_pass]\<rparr>"
  by (simp add: db2_def db1_eval activate_subscription_def activate_request_def
      active_subscription_def UserSubscription_save_def Let_def
      uid_alice_def uid_owner_def oid_plan_def oid_subscription_def alice_def owner_def
      weekly_plan_def db0_def alice_subscription_def eval_defs)

text \<open>
  C5 (amended). \<open>validate_meal_pass\<close> returns \<open>valid = True\<close> with the populated
  pass data if and only if a meal pass with the given \<open>qrCode\<close> exists, it is not
  blocked, it is active, its \<open>validFrom\<close> and \<open>validTill\<close> are set and the current
  time lies between them, the subscription it refers to exists with status \<open>Active\<close>,
  and the user it refers to exists. For a pass with both bounds set the checks run in
  this order: no pass gives 404, a blocked pass 403, an inactive pass 403, a time
  outside the window 403, a missing subscription 404, a subscription that is not active
  403, a missing user 404. A pass that is not blocked and is active but lacks a bound
  that the window check reads gives status 500.
\<close>

theorem validate_meal_pass_checks:
  "(\<forall>r. validate_meal_pass st qr now = Return r \<longleftrightarrow>
       (\<exists>mp f t sub user.
           find (\<lambda>p. qrCode p = qr) (mealpasses st) = Some mp
         \<and> \<not> isBlocked mp \<and> mp_isActive mp
         \<and> validFrom mp = Some f \<and> validTill mp = Some t \<and> f \<le> now \<and> now \<le> t
         \<and> UserSubscription_get st (mp_subscriptionId mp) = Some sub \<and> us_status sub = Active
         \<and> User_get st (mp_userId mp) = Some user
         \<and> r = \<lparr>valid = True, vr_mealPass = mp,
                 vr_userId = \<lparr>pu_id = u_id user, pu_username = u_username user,
                              pu_email = u_email user\<rparr>,
                 vr_subscriptionId =
                   (case SubscriptionPlan_get st (us_planId sub) of
                      None \<Rightarrow> None
                    | Some plan \<Rightarrow>
                        Some \<lparr>ps_id = us_id sub, ps_status = us_status sub,
                              ps_planId = \<lparr>pp_id = sp_id plan, pp_planName = planName plan,
                                           pp_mealType = sp_mealType plan,
                                           pp_duration = sp_duration plan\<rparr>\<rparr>)\<rparr>))
   \<and> (find (\<lambda>p. qrCode p = qr) (mealpasses st) = None \<longrightarrow>
        validate_meal_pass st qr now = HTTPException 404 ''Invalid QR code'')
   \<and> (\<forall>mp. find (\<lambda>p. qrCode p = qr) (mealpasses st) = Some mp \<longrightarrow>
        (isBlocked mp \<longrightarrow>
           validate_meal_pass st qr now =
             HTTPException 403 (''User is blocked: '' @ str_optional (blockReason mp)))
      \<and> (\<not> isBlocked mp \<and> \<not> mp_isActive mp \<longrightarrow>
           validate_meal_pass st qr now = HTTPException 403 ''Meal pass is not active'')
      \<and> (\<not> isBlocked mp \<and> mp_isActive mp \<longrightarrow>
           (\<forall>f t. validFrom mp = Some f \<and> validTill mp = Some t \<longrightarrow>
              (now < f \<or> t < now \<longrightarrow>
                 validate_meal_pass st qr now = HTTPException 403 ''Meal pass has expired'')
            \<and> (f \<le> now \<and> now \<le> t \<longrightarrow>
                 (UserSubscription_get st (mp_subscriptionId mp) = None \<longrightarrow>
                    validate_meal_pass st qr now = HTTPException 404 ''Subscription not found'')
               \<and> (\<forall>sub. UserSubscription_get st (mp_subscriptionId mp) = Some sub \<longrightarrow>
                    (us_status sub \<noteq> Active \<longrightarrow>
                       validate_meal_pass st qr now =
                         HTTPException 403 ''Subscription is not active'')
                  \<and> (us_status sub = Active \<and> User_get st (mp_userId mp) = None \<longrightarrow>
                       validate_meal_pass st qr now = HTTPException 404 ''User not found''))))
         \<and> (validFrom mp = None
              \<or> (\<exists>f. validFrom mp = Some f \<and> f \<le> now \<and> validTill mp = None) \<longrightarrow>
             (\<exists>detail. validate_meal_pass st qr now = HTTPException 500 detail))))"
  by (auto simp: validate_meal_pass_def split: option.splits)

theorem validate_meal_pass_checks_witness:
  "find (\<lambda>p. qrCode p = qrCode alice_pass) (mealpasses db2) = Some alice_pass
   \<and> \<not> isBlocked alice_pass \<and> mp_isActive alice_pass
   \<and> validFrom alice_pass = Some 1000 \<and> validTill alice_pass = Some 604800001000
   \<and> UserSubscription_get db2 (mp_subscriptionId alice_pass) = Some active_subscription
   \<and> us_status active_subscription = Active
   \<and> User_get db2 (mp_userId alice_pass) = Some alice
   \<and> (\<exists>r. validate_meal_pass db2 (qrCode alice_pass) 6000 = Return r \<and> valid r
           \<and> vr_mealPass r = alice_pass)
   \<and> validate_meal_pass db2 (qrCode alice_pass) 900 = HTTPException 403 ''Meal pass has expired''
   \<and> find (\<lambda>p. qrCode p = qrCode alice_pass) (mealpasses db1) = Some alice_pass
   \<and> UserSubscription_get db1 (mp_subscriptionId alice_pass) = Some alice_subscription
   \<and> us_status alice_subscription \<noteq> Active
   \<and> validate_meal_pass db1 (qrCode alice_pass) 6000 =
        HTTPException 403 ''Subscription is not active''
   \<and> find (\<lambda>p. qrCode p = ''unknown'') (mealpasses db2) = None
   \<and> validate_meal_pass db2 ''unknown'' 6000 = HTTPException 404 ''Invalid QR code''"
proof -
  have qr: "qrCode alice_pass \<noteq> ''unknown''"
    by (simp add: alice_pass_def stub_digest_def json_dumps_sort_keys_def)
  have f2: "find (\<lambda>p. qrCode p = qrCode alice_pass) (mealpasses db2) = Some alice_pass"
    and f1: "find (\<lambda>p. qrCode p = qrCode alice_pass) (mealpasses db1) = Some alice_pass"
    and f0: "find (\<lambda>p. qrCode p = ''unknown'') (mealpasses db2) = None"
    using qr by (simp_all add: db2_eval db1_eval)
  have p: "\<not> isBlocked alice_pass" "mp_isActive alice_pass"
    "validFrom alice_pass = Some 1000" "validTill alice_pass = Some 604800001000"
    by (simp_all add: alice_pass_def)
  have s2: "UserSubscription_get db2 (mp_subscriptionId alice_pass) = Some active_subscription"
    and s1: "UserSubscription_get db1 (mp_subscriptionId alice_pass) = Some alice_subscription"
    and st: "us_status active_subscription = Active" "us_status alice_subscription \<noteq> Active"
    and u2: "User_get db2 (mp_userId alice_pass) = Some alice"
    by (simp_all add: db2_eval db1_eval UserSubscription_get_def User_get_def
        alice_pass_def active_subscription_def alice_subscription_def db0_def alice_def)
  from validate_meal_pass_checks [of db2 "qrCode alice_pass" 6000] f2 p s2 st u2
  have a: "\<exists>r. validate_meal_pass db2 (qrCode alice_pass) 6000 = Return r \<and> valid r
           \<and> vr_mealPass r = alice_pass"
    by force
  from validate_meal_pass_checks [of db2 "qrCode alice_pass" 900] f2 p
  have b: "validate_meal_pass db2 (qrCode alice_pass) 900 = HTTPException 403 ''Meal pass has expired''"
    by simp
  from validate_meal_pass_checks [of db1 "qrCode alice_pass" 6000] f1 p s1 st
  have c: "validate_meal_pass db1 (qrCode alice_pass) 6000 =
        HTTPException 403 ''Subscription is not active''"
    by simp
  from validate_meal_pass_checks [of db2 "''unknown''" 6000] f0
  have d: "validate_meal_pass db2 ''unknown'' 6000 = HTTPException 404 ''Invalid QR code''"
    by blast
  from f2 f1 f0 p s2 s1 st u2 a b c d show ?thesis by blast
qed

text \<open>
  Without the condition on the bounds the property fails: a stored pass without
  \<open>validFrom\<close> that is neither blocked nor inactive is answered with status 500,
  which is neither 404 nor 403.
\<close>

theorem validate_meal_pass_undated:
  "find (\<lambda>p. qrCode p = qrCode undated_pass) (mealpasses db_undated) = Some undated_pass
   \<and> \<not> isBlocked undated_pass \<and> mp_isActive undated_pass
   \<and> validate_meal_pass db_undated (qrCode undated_pass) 6000 =
       HTTPException 500 (not_supported ''<'')"
  by (simp add: validate_meal_pass_def db_undated_def undated_pass_def alice_pass_def)

section \<open>Checking in\<close>












text \<open>The interleaved run on one database is the handler itself.\<close>

lemma create_checkin_interleaved_same:
  "create_checkin_interleaved env st st mess_id payload = create_checkin env st mess_id payload"
  by (simp add: create_checkin_interleaved_def create_checkin_def Let_def
      internal_server_error_def split: option.splits)




section \<open>Signing up\<close>

lemma LoginRole_value_nonempty: "LoginRole_value r \<noteq> []"
  by (cases r) simp_all

text \<open>
  C3 (amended). For every call of \<open>signup\<close> with all four fields non-empty and a
  password of at most 128 characters, \<open>DuplicateError\<close> is raised if and only if a user
  with the given e-mail address exists or a user with the given username exists; the
  address is checked first, so the error names the address when both exist. When neither
  exists and the \<open>User\<close> document accepts the fields (a username of 3 to 50 characters
  and an address its validator accepts), a new user with the hashed password is
  appended to the stored users and the pair of that user and the token is returned. When
  neither exists and the document rejects the username or the address, pydantic's
  validation error is raised and no user is inserted.
\<close>

theorem signup_duplicates:
  assumes "username \<noteq> []" and "email \<noteq> []" and "password \<noteq> []"
    and "length password \<le> 128"
  shows
   "((\<exists>field value. fst (signup hash_password create_token EmailStr env st username email
                           password login_role) = Inl (DuplicateError field value))
       \<longleftrightarrow> (\<exists>u\<in>set (users st). u_email u = email)
            \<or> (\<exists>u\<in>set (users st). u_username u = username))
    \<and> ((\<exists>u\<in>set (users st). u_email u = email) \<longrightarrow>
          signup hash_password create_token EmailStr env st username email password login_role
            = (Inl (DuplicateError ''Email'' email), st))
    \<and> (\<not> (\<exists>u\<in>set (users st). u_email u = email)
          \<and> (\<exists>u\<in>set (users st). u_username u = username) \<longrightarrow>
          signup hash_password create_token EmailStr env st username email password login_role
            = (Inl (DuplicateError ''Username'' username), st))
    \<and> (\<not> (\<exists>u\<in>set (users st). u_email u = email)
          \<and> \<not> (\<exists>u\<in>set (users st). u_username u = username) \<longrightarrow>
          (\<forall>validated_email.
              3 \<le> length username \<and> length username \<le> 50
              \<and> EmailStr email = Some validated_email \<longrightarrow>
              signup hash_password create_token EmailStr env st username email password
                  login_role
                = (Inr (signed_up_user env username validated_email (hash_password password)
                          login_role,
                        create_token (str_oid (new_user_id env)) (LoginRole_value login_role)),
                   st\<lparr>users := users st @
                        [signed_up_user env username validated_email (hash_password password)
                           login_role]\<rparr>))
        \<and> (length username < 3 \<or> 50 < length username \<or> EmailStr email = None \<longrightarrow>
              signup hash_password create_token EmailStr env st username email password
                  login_role
                = (Inl PydanticValidationError, st)))"
proof -
  let ?r = "signup hash_password create_token EmailStr env st username email password login_role"
  note pre = assms LoginRole_value_nonempty
  show ?thesis
  proof (cases "find (\<lambda>u. u_email u = email) (users st)")
    case (Some u)
    then have "\<exists>u\<in>set (users st). u_email u = email"
      using find_Some_Bex [of "\<lambda>u. u_email u = email" "users st"] by blast
    moreover have "?r = (Inl (DuplicateError ''Email'' email), st)"
      using pre Some by (simp add: signup_def)
    ultimately show ?thesis by simp
  next
    case None
    then have ne: "\<not> (\<exists>u\<in>set (users st). u_email u = email)"
      by (simp add: find_None_iff)
    show ?thesis
    proof (cases "find (\<lambda>u. u_username u = username) (users st)")
      case (Some u)
      then have "\<exists>u\<in>set (users st). u_username u = username"
        using find_Some_Bex [of "\<lambda>u. u_username u = username" "users st"] by blast
      moreover have "?r = (Inl (DuplicateError ''Username'' username), st)"
        using pre None Some by (simp add: signup_def)
      ultimately show ?thesis using ne by simp
    next
      case n2: None
      then have nu: "\<not> (\<exists>u\<in>set (users st). u_username u = username)"
        by (simp add: find_None_iff)
      have bad: "length username < 3 \<or> 50 < length username \<or> EmailStr email = None
          \<Longrightarrow> ?r = (Inl PydanticValidationError, st)"
        using pre None n2 by (auto simp: signup_def Let_def)
      have good: "\<And>validated_email. 3 \<le> length username \<Longrightarrow> length username \<le> 50
          \<Longrightarrow> EmailStr email = Some validated_email
          \<Longrightarrow> ?r = (Inr (signed_up_user env username validated_email (hash_password password)
                          login_role,
                        create_token (str_oid (new_user_id env)) (LoginRole_value login_role)),
                   st\<lparr>users := users st @
                        [signed_up_user env username validated_email (hash_password password)
                           login_role]\<rparr>)"
        using pre None n2 by (simp add: signup_def Let_def signed_up_user_def)
      have nodup: "\<not> (\<exists>field value. fst ?r = Inl (DuplicateError field value))"
      proof (cases "length username < 3 \<or> 50 < length username \<or> EmailStr email = None")
        case True
        then show ?thesis using bad by simp
      next
        case False
        then obtain v where "EmailStr email = Some v" "3 \<le> length username"
          "length username \<le> 50" by auto
        then show ?thesis using good by simp
      qed
      from ne nu bad good nodup show ?thesis by blast
    qed
  qed
qed

theorem signup_duplicates_witness:
  "''carol'' \<noteq> [] \<and> ''carol@example.com'' \<noteq> [] \<and> ''secret12'' \<noteq> []
   \<and> length ''secret12'' \<le> 128
   \<and> \<not> (\<exists>u\<in>set (users db0). u_email u = ''carol@example.com'')
   \<and> \<not> (\<exists>u\<in>set (users db0). u_username u = ''carol'')
   \<and> accept_email ''carol@example.com'' = Some ''carol@example.com''
   \<and> signup stub_hash stub_token accept_email signup_env0 db0 ''carol'' ''carol@example.com''
        ''secret12'' USER
      = (Inr (signed_up_user signup_env0 ''carol'' ''carol@example.com'' (stub_hash ''secret12'')
                USER,
              stub_token (str_oid (new_user_id signup_env0)) (LoginRole_value USER)),
         db0\<lparr>users := users db0 @
              [signed_up_user signup_env0 ''carol'' ''carol@example.com''
                 (stub_hash ''secret12'') USER]\<rparr>)
   \<and> (\<exists>u\<in>set (users db0). u_email u = ''alice@example.com'')
   \<and> signup stub_hash stub_token accept_email signup_env0 db0 ''carol'' ''alice@example.com''
        ''secret12'' USER
      = (Inl (DuplicateError ''Email'' ''alice@example.com''), db0)
   \<and> (\<exists>u\<in>set (users db0). u_username u = ''alice'')
   \<and> signup stub_hash stub_token accept_email signup_env0 db0 ''alice'' ''carol@example.com''
        ''secret12'' USER
      = (Inl (DuplicateError ''Username'' ''alice''), db0)"
proof -
  have p: "''carol'' \<noteq> []" "''carol@example.com'' \<noteq> []" "''secret12'' \<noteq> []"
    "length ''secret12'' \<le> 128" "''alice@example.com'' \<noteq> []" "''alice'' \<noteq> []"
    "3 \<le> length ''carol''" "length ''carol'' \<le> 50"
    by simp_all
  have n: "\<not> (\<exists>u\<in>set (users db0). u_email u = ''carol@example.com'')"
    "\<not> (\<exists>u\<in>set (users db0). u_username u = ''carol'')"
    and e: "\<exists>u\<in>set (users db0). u_email u = ''alice@example.com''"
    "\<exists>u\<in>set (users db0). u_username u = ''alice''"
    and v: "accept_email ''carol@example.com'' = Some ''carol@example.com''"
    by (simp_all add: db0_def alice_def owner_def accept_email_def)
  from signup_duplicates [OF p(1,2,3,4), where st = db0 and hash_password = stub_hash and create_token = stub_token
      and EmailStr = accept_email and env = signup_env0 and login_role = USER]
    n v p(7,8)
  have a: "signup stub_hash stub_token accept_email signup_env0 db0 ''carol'' ''carol@example.com''
        ''secret12'' USER
      = (Inr (signed_up_user signup_env0 ''carol'' ''carol@example.com'' (stub_hash ''secret12'')
                USER,
              stub_token (str_oid (new_user_id signup_env0)) (LoginRole_value USER)),
         db0\<lparr>users := users db0 @
              [signed_up_user signup_env0 ''carol'' ''carol@example.com''
                 (stub_hash ''secret12'') USER]\<rparr>)"
    by blast
  from signup_duplicates [OF p(1,5,3,4), where st = db0 and hash_password = stub_hash and create_token = stub_token
      and EmailStr = accept_email and env = signup_env0 and login_role = USER] e
  have b: "signup stub_hash stub_token accept_email signup_env0 db0 ''carol'' ''alice@example.com''
        ''secret12'' USER
      = (Inl (DuplicateError ''Email'' ''alice@example.com''), db0)"
    by blast
  from signup_duplicates [OF p(6,2,3,4), where st = db0 and hash_password = stub_hash and create_token = stub_token
      and EmailStr = accept_email and env = signup_env0 and login_role = USER]
    n e
  have c: "signup stub_hash stub_token accept_email signup_env0 db0 ''alice'' ''carol@example.com''
        ''secret12'' USER
      = (Inl (DuplicateError ''Username'' ''alice''), db0)"
    by blast
  from p n e v a b c show ?thesis by blast
qed

text \<open>
  Without the condition on the document the property fails: for the username \<open>al\<close>,
  with all fields non-empty and neither the address nor the username taken, no user is
  inserted.
\<close>

theorem signup_short_username:
  "''al'' \<noteq> [] \<and> ''al@example.com'' \<noteq> [] \<and> ''secret12'' \<noteq> []
   \<and> length ''secret12'' \<le> 128
   \<and> ''al@example.com'' \<notin> set (map u_email (users db0))
   \<and> ''al'' \<notin> set (map u_username (users db0))
   \<and> signup stub_hash stub_token accept_email signup_env0 db0 ''al'' ''al@example.com''
        ''secret12'' USER
      = (Inl PydanticValidationError, db0)"
  by (simp add: signup_def db0_def alice_def owner_def Let_def)

section \<open>Rating a mess\<close>

text \<open>
  What holds of the rating code: a user whose identifier is found among the raters is
  turned away with the document unchanged, a rating outside 1 to 5 is rejected, and for
  an identifier written in lowercase the lengths stay equal and the raters distinct.
\<close>

lemma add_rating_already_rated:
  "user_id \<in> set (map str_rater (RatedBy m)) \<Longrightarrow> add_rating m user_id rating = (Inr False, m)"
  by (simp add: add_rating_def)

lemma add_rating_lowercase_id:
  assumes "ratings_invariant m" and "PydanticObjectId user_id = Some user_id"
  shows "ratings_invariant (snd (add_rating m user_id rating))"
  using assms
  by (auto simp: add_rating_def ratings_invariant_def Let_def str_oid_def)

lemma update_rating_rejects:
  "payload_rating < 1 \<or> 5 < payload_rating \<Longrightarrow>
     update_rating st mess_id user_id payload_rating =
       (HTTPException 400 ''Rating must be between 1 and 5'', st)"
  "\<not> (payload_rating < 1 \<or> 5 < payload_rating) \<Longrightarrow> get_mess_by_id st mess_id = Some mess \<Longrightarrow>
     user_id \<in> set (map str_rater (RatedBy mess)) \<Longrightarrow>
     update_rating st mess_id user_id payload_rating =
       (HTTPException 400 ''You have already rated this mess'', st)"
  by (auto simp: update_rating_def has_user_rated_def)

text \<open>
  C7. The property claimed is that every operation keeps \<open>Ratings\<close> and \<open>RatedBy\<close>
  of equal length with no rater occurring twice, and that \<open>update_rating\<close> rejects a
  user who has rated already. The code does not keep it. The test for an earlier rating
  compares the identifier as the caller wrote it with the lowercase text of the stored
  identifiers: Alice, who has rated, rates again by writing her identifier in uppercase,
  the request succeeds, and the stored document lists her twice. And \<open>add_rating\<close>
  appends the rating before it parses the identifier: with an identifier that does not
  parse it raises after the rating is appended, leaving the lists of unequal length.
\<close>

theorem update_rating_case_variant:
  "ratings_invariant rated_mess
   \<and> RatedBy rated_mess = [RaterObjectId uid_alice]
   \<and> PydanticObjectId ''507F1F77BCF86CD799439011'' = Some uid_alice
   \<and> update_rating db_mess oid_mess ''507F1F77BCF86CD799439011'' 3 =
       (Return \<lparr>rr_rating = 4, rr_total_ratings = 2\<rparr>, db_mess\<lparr>messes := [rated_twice]\<rparr>)
   \<and> RatedBy rated_twice = [RaterObjectId uid_alice, RaterObjectId uid_alice]
   \<and> \<not> ratings_invariant rated_twice
   \<and> add_rating rated_mess ''alice'' 4 =
       (Inl InvalidId, rated_mess\<lparr>Ratings := [PyInt 5, PyInt 4]\<rparr>)
   \<and> \<not> ratings_invariant (rated_mess\<lparr>Ratings := [PyInt 5, PyInt 4]\<rparr>)"
  by (simp add: update_rating_def add_rating_def has_user_rated_def get_mess_by_id_def
      Mess_save_def calculate_average_rating_def ratings_invariant_def
      db_mess_def rated_mess_def rated_twice_def legacy_mess_def db0_def
      uid_alice_def oid_mess_def Let_def eval_defs)

end
